theory Spec2Isabelle
  imports Main "HOL-Library.AList"
begin

section \<open>Text, bytes and spreadsheet cells\<close>

text \<open>
  A Python \<open>str\<close> is a sequence of Unicode code points, so it is a list of naturals here
  and \<open>length\<close> counts what Python's \<open>len\<close> counts. A \<open>bytes\<close> value is a list of
  8-bit characters. \<open>ascii\<close> turns an ASCII literal into the \<open>str\<close> it denotes.
\<close>

type_synonym pystr = "nat list"
type_synonym bytes = "char list"

definition ascii :: "string \<Rightarrow> pystr" where
  "ascii s = map of_char s"

text \<open>
  \<open>pd.read_csv(uploaded_csv, dtype=str)\<close> yields cells that are either a \<open>str\<close> or, for a
  missing value, the float NaN. \<open>str(s)\<close> and the f-string replacement field \<open>{rid}\<close> both
  render a \<open>str\<close> as itself and NaN as \<open>nan\<close>.
\<close>

datatype cell = Str pystr | NaN

fun py_str :: "cell \<Rightarrow> pystr" where
  "py_str (Str s) = s"
| "py_str NaN = ascii ''nan''"

fun startswith :: "'a list \<Rightarrow> 'a list \<Rightarrow> bool" where
  "startswith s [] = True"
| "startswith [] (p # ps) = False"
| "startswith (c # s) (p # ps) = (c = p \<and> startswith s ps)"

text \<open>\<open>contains needle hay\<close> is Python's \<open>needle in hay\<close> on strings.\<close>

fun contains :: "'a list \<Rightarrow> 'a list \<Rightarrow> bool" where
  "contains needle [] = (needle = [])"
| "contains needle (h # hay) = (startswith (h # hay) needle \<or> contains needle hay)"

text \<open>
  \<open>str.lower\<close>. The ASCII capitals go to their small letters. Code points outside ASCII
  are left as they are: Python rewrites the cased letters among them as well, but never
  into one of the letters of \<open>logout\<close>, the only word this program looks for in a
  lowered text.
\<close>

definition lower_cp :: "nat \<Rightarrow> nat" where
  "lower_cp c = (if 65 \<le> c \<and> c \<le> 90 then c + 32 else c)"

definition lower :: "pystr \<Rightarrow> pystr" where
  "lower s = map lower_cp s"

section \<open>Helper functions\<close>

text \<open>
  Python exceptions, as far as the program meets them. \<open>StructError\<close> is \<open>struct.error\<close>,
  \<open>DuplicateWidgetID\<close> is Streamlit's (\<open>StreamlitDuplicateElementId\<close> in later versions),
  \<open>Exception\<close> stands for the others, with their text.
\<close>

datatype exn =
    KeyError pystr
  | ValueError
  | IndexError
  | UnicodeEncodeError
  | StructError
  | DuplicateWidgetID
  | Exception pystr

subsection \<open>safe_filename\<close>

text \<open>
  The character class of the pattern \<open>r'[\\/*?:"<>|]'\<close>: backslash, slash, asterisk,
  question mark, colon, double quote, less-than, greater-than and vertical bar.
\<close>

definition forbidden :: "nat list" where
  "forbidden = [92, 47, 42, 63, 58, 34, 60, 62, 124]"

text \<open>\<open>re.sub\<close> for a pattern that is one character class: every match is one code point.\<close>

definition re_sub_class :: "nat list \<Rightarrow> pystr \<Rightarrow> pystr \<Rightarrow> pystr" where
  "re_sub_class cls repl s = concat (map (\<lambda>c. if c \<in> set cls then repl else [c]) s)"

definition safe_filename :: "cell \<Rightarrow> pystr" where
  "safe_filename s = re_sub_class forbidden (ascii ''_'') (py_str s)"

subsection \<open>urljoin\<close>

text \<open>
  \<open>urllib.parse.urljoin(base, url)\<close>, for the two references this program resolves: the
  empty reference and an absolute path (one leading slash, no scheme, authority, parameters,
  query or fragment, no empty or dot segment), which resolution leaves as it is. The base
  goes through \<open>urlsplit\<close>: leading C0 controls and spaces are stripped, tabs and line
  breaks removed, a scheme is recognised before the first colon, and an authority after
  \<open>//\<close> up to the first of \<open>/ ? #\<close>. \<open>urlsplit\<close> then validates the authority and
  raises \<open>ValueError\<close> when it refuses it; \<open>urljoin\<close> parses the base before anything
  else, so it raises for such a base whatever the scheme.
\<close>

definition scheme_chars :: "nat list" where
  "scheme_chars = ascii ''abcdefghijklmnopqrstuvwxyzABCDEFGHIJKLMNOPQRSTUVWXYZ0123456789+-.''"

definition uses_relative :: "pystr list" where
  "uses_relative = map ascii ['''', ''ftp'', ''http'', ''gopher'', ''nntp'', ''imap'', ''wais'',
     ''file'', ''https'', ''shttp'', ''mms'', ''prospero'', ''rtsp'', ''rtsps'', ''rtspu'',
     ''sftp'', ''svn'', ''svn+ssh'', ''ws'', ''wss'']"

definition uses_netloc :: "pystr list" where
  "uses_netloc = map ascii ['''', ''ftp'', ''http'', ''gopher'', ''nntp'', ''telnet'', ''imap'',
     ''wais'', ''file'', ''mms'', ''https'', ''shttp'', ''snews'', ''prospero'', ''rtsp'',
     ''rtsps'', ''rtspu'', ''rsync'', ''svn'', ''svn+ssh'', ''sftp'', ''nfs'', ''git'',
     ''git+ssh'', ''ws'', ''wss'']"

definition is_ascii_alpha :: "nat \<Rightarrow> bool" where
  "is_ascii_alpha c = ((65 \<le> c \<and> c \<le> 90) \<or> (97 \<le> c \<and> c \<le> 122))"

text \<open>The first steps of \<open>urlsplit\<close>: \<open>lstrip\<close> of code points up to the space, then removal
  of tab, line feed and carriage return.\<close>

definition url_clean :: "pystr \<Rightarrow> pystr" where
  "url_clean u = filter (\<lambda>c. c \<notin> {9, 10, 13}) (dropWhile (\<lambda>c. c \<le> 32) u)"

text \<open>The scheme and what follows its colon; the default scheme \<open>''\<close> when none is found.\<close>

definition split_scheme :: "pystr \<Rightarrow> pystr \<times> pystr" where
  "split_scheme u =
     (let pre = takeWhile (\<lambda>c. c \<noteq> 58) u in
      if 58 \<in> set u \<and> pre \<noteq> [] \<and> is_ascii_alpha (hd u) \<and> set pre \<subseteq> set scheme_chars
      then (lower pre, drop (length pre + 1) u)
      else ([], u))"

text \<open>\<open>_splitnetloc(url, 2)\<close> when the text starts with two slashes.\<close>

definition split_netloc :: "pystr \<Rightarrow> pystr \<times> pystr" where
  "split_netloc u =
     (if take 2 u = ascii ''//''
      then (takeWhile (\<lambda>c. c \<notin> set (ascii ''/?#'')) (drop 2 u),
            dropWhile (\<lambda>c. c \<notin> set (ascii ''/?#'')) (drop 2 u))
      else ([], u))"

text \<open>\<open>urlunsplit\<close> with empty query and fragment.\<close>

definition urlunsplit :: "pystr \<Rightarrow> pystr \<Rightarrow> pystr \<Rightarrow> pystr" where
  "urlunsplit scheme netloc path =
     (let u1 = (if netloc \<noteq> [] \<or> (scheme \<noteq> [] \<and> scheme \<in> set uses_netloc) \<or> take 2 path = ascii ''//''
                then ascii ''//'' @ netloc @ (if path \<noteq> [] \<and> take 1 path \<noteq> ascii ''/'' then ascii ''/'' @ path else path)
                else path)
      in if scheme \<noteq> [] then scheme @ ascii '':'' @ u1 else u1)"

text \<open>
  The validation of an authority in \<open>urlsplit\<close>; \<open>True\<close> when it passes. An authority
  with only one kind of square bracket is refused. One without square brackets and all in
  ASCII passes. For the others \<open>urlsplit\<close> calls \<open>_check_bracketed_host\<close>, which rests on
  the \<open>ipaddress\<close> module, and \<open>_checknetloc\<close>, which rests on the NFKC tables of
  \<open>unicodedata\<close>: whether those two let an authority pass is the parameter \<open>host_ok\<close>.
\<close>

definition netloc_check :: "(pystr \<Rightarrow> bool) \<Rightarrow> pystr \<Rightarrow> bool" where
  "netloc_check host_ok netloc =
     (if (91 \<in> set netloc) \<noteq> (93 \<in> set netloc) then False
      else if 91 \<notin> set netloc \<and> list_all (\<lambda>c. c < 128) netloc then True
      else host_ok netloc)"

definition urljoin :: "(pystr \<Rightarrow> bool) \<Rightarrow> pystr \<Rightarrow> pystr \<Rightarrow> exn + pystr" where
  "urljoin host_ok base url =
     (if base = [] then Inr url
      else if url = [] then Inr base
      else
        (let (bscheme, rest) = split_scheme (url_clean base);
             bnetloc = fst (split_netloc rest)
         in if \<not> netloc_check host_ok bnetloc then Inl ValueError
            else if bscheme \<notin> set uses_relative then Inr url
            else Inr (urlunsplit bscheme bnetloc url)))"

section \<open>Report rows\<close>

text \<open>
  A row handed out by \<open>df.iterrows()\<close> is a Series: the cells of the row under the labels
  of \<open>df.columns\<close>. Indexing it with a label it does not carry raises \<open>KeyError\<close>.
\<close>

type_synonym row = "(pystr \<times> cell) list"

record dataframe =
  columns :: "pystr list"
  rows :: "cell list list"

definition iterrows :: "dataframe \<Rightarrow> row list" where
  "iterrows df = map (zip (columns df)) (rows df)"

text \<open>The four cells the loop body reads from a row, \<open>row["id"]\<close> first.\<close>

record descriptor =
  rid :: cell
  reportname :: cell
  account_name :: cell
  date :: cell

definition row_get :: "row \<Rightarrow> pystr \<Rightarrow> exn + cell" where
  "row_get r k = (case map_of r k of None \<Rightarrow> Inl (KeyError k) | Some c \<Rightarrow> Inr c)"

definition descriptor_of :: "row \<Rightarrow> exn + descriptor" where
  "descriptor_of r =
     (case row_get r (ascii ''id'') of Inl e \<Rightarrow> Inl e | Inr i \<Rightarrow>
     (case row_get r (ascii ''reportname'') of Inl e \<Rightarrow> Inl e | Inr n \<Rightarrow>
     (case row_get r (ascii ''account.name'') of Inl e \<Rightarrow> Inl e | Inr a \<Rightarrow>
     (case row_get r (ascii ''date'') of Inl e \<Rightarrow> Inl e | Inr d \<Rightarrow>
        Inr \<lparr>rid = i, reportname = n, account_name = a, date = d\<rparr>))))"

definition filename :: "descriptor \<Rightarrow> pystr" where
  "filename d =
     safe_filename (reportname d) @ ascii ''_'' @
     safe_filename (account_name d) @ ascii ''_'' @
     safe_filename (date d) @ ascii ''_('' @ py_str (rid d) @ ascii '').pdf''"

definition report_base_url :: "(pystr \<Rightarrow> bool) \<Rightarrow> pystr \<Rightarrow> exn + pystr" where
  "report_base_url host_ok base_url =
     urljoin host_ok base_url (ascii ''/patrol/default/viewreportprintable/idreport/'')"

definition pdf_url :: "pystr \<Rightarrow> descriptor \<Rightarrow> pystr" where
  "pdf_url rbu d = rbu @ py_str (rid d)"

section \<open>HTTP sessions\<close>

text \<open>
  What the program sees of \<open>requests\<close>. A call of \<open>session.get\<close> or \<open>session.post\<close> sends
  one request carrying the session's headers and cookies, follows redirects on its own, and
  either raises or returns the final response. The cookies the portal set on the way are
  kept in the session's jar, which is what carries a login over to the later requests.
  The jar holds one value for a domain, a path and a name; a cookie the portal sets replaces
  the value under its key, and a cookie it sets as already expired removes the key. A
  request is built from the whole jar, of which the library sends the cookies that match
  the URL. \<open>r.text\<close> is \<open>r.content\<close> decoded by the library; both views are carried.
\<close>

type_synonym cookie_key = "pystr \<times> pystr \<times> pystr"
type_synonym jar = "(cookie_key \<times> pystr) list"

datatype http_method = GET | POST

record request =
  req_method :: http_method
  req_url :: pystr
  req_data :: "(pystr \<times> pystr option) list"
  req_headers :: "(pystr \<times> pystr) list"
  req_cookies :: jar
  req_timeout :: nat

record response =
  status_code :: int
  resp_text :: pystr
  content :: bytes

record exchange =
  result :: "exn + response"
  cookies_set :: "(cookie_key \<times> pystr option) list"

text \<open>The HTTP library together with the network and the portal behind it, in a state \<open>'w\<close>.\<close>

type_synonym 'w http = "request \<Rightarrow> 'w \<Rightarrow> exchange \<times> 'w"

record session =
  cookies :: jar
  headers :: "(pystr \<times> pystr) list"

text \<open>\<open>requests.Session()\<close>: an empty jar and the library's default headers (the version
  after \<open>python-requests\<close> in the user agent is left out).\<close>

definition new_session :: session where
  "new_session = \<lparr>cookies = [],
     headers = [(ascii ''User-Agent'', ascii ''python-requests''),
                (ascii ''Accept-Encoding'', ascii ''gzip, deflate''),
                (ascii ''Accept'', ascii ''*/*''),
                (ascii ''Connection'', ascii ''keep-alive'')]\<rparr>"

text \<open>The network state and the requests the program has made so far, oldest first.\<close>

record 'w net =
  world :: 'w
  sent :: "request list"

fun store_cookie :: "cookie_key \<times> pystr option \<Rightarrow> jar \<Rightarrow> jar" where
  "store_cookie (k, Some v) j = AList.update k v j"
| "store_cookie (k, None) j = AList.delete k j"

definition store_cookies :: "(cookie_key \<times> pystr option) list \<Rightarrow> jar \<Rightarrow> jar" where
  "store_cookies new j = fold store_cookie new j"

definition build_request ::
  "http_method \<Rightarrow> pystr \<Rightarrow> (pystr \<times> pystr option) list \<Rightarrow> nat \<Rightarrow> session \<Rightarrow> request" where
  "build_request m u d t s =
     \<lparr>req_method = m, req_url = u, req_data = d, req_headers = headers s,
      req_cookies = cookies s, req_timeout = t\<rparr>"

definition session_request ::
  "'w http \<Rightarrow> http_method \<Rightarrow> pystr \<Rightarrow> (pystr \<times> pystr option) list \<Rightarrow> nat \<Rightarrow> session \<Rightarrow> 'w net
     \<Rightarrow> (exn + response) \<times> session \<times> 'w net" where
  "session_request send m u d t s n =
     (let rq = build_request m u d t s;
          (x, w') = send rq (world n)
      in (result x,
          s\<lparr>cookies := store_cookies (cookies_set x) (cookies s)\<rparr>,
          \<lparr>world = w', sent = sent n @ [rq]\<rparr>))"

definition session_get :: "'w http \<Rightarrow> pystr \<Rightarrow> nat \<Rightarrow> session \<Rightarrow> 'w net
     \<Rightarrow> (exn + response) \<times> session \<times> 'w net" where
  "session_get send u t s n = session_request send GET u [] t s n"

definition session_post :: "'w http \<Rightarrow> pystr \<Rightarrow> (pystr \<times> pystr option) list \<Rightarrow> nat \<Rightarrow> session \<Rightarrow> 'w net
     \<Rightarrow> (exn + response) \<times> session \<times> 'w net" where
  "session_post send u d t s n = session_request send POST u d t s n"

section \<open>Login\<close>

text \<open>
  \<open>BeautifulSoup(r.text, "html.parser")\<close> is a parameter: it gives the elements of the page
  in document order, each with its tag name and attributes. \<open>soup.find(name, attrs)\<close> is the
  first element with that tag name and those attribute values, or \<open>None\<close>; a found tag is
  always truthy. \<open>tag.get(key)\<close> is the attribute's value, or \<open>None\<close>.
\<close>

record element =
  tag_name :: pystr
  attrs :: "(pystr \<times> pystr) list"

definition soup_find :: "element list \<Rightarrow> pystr \<Rightarrow> (pystr \<times> pystr) list \<Rightarrow> element option" where
  "soup_find soup name want =
     find (\<lambda>e. tag_name e = name \<and> list_all (\<lambda>(k, v). map_of (attrs e) k = Some v) want) soup"

definition tag_get :: "element \<Rightarrow> pystr \<Rightarrow> pystr option" where
  "tag_get e k = map_of (attrs e) k"

text \<open>The messages \<open>perform_login\<close> returns beside the session.\<close>

datatype login_msg =
    CouldNotLoadPage exn
  | CouldNotLoadPageStatus int
  | CsrfTokenNotFound
  | LoginRequestFailed exn
  | LoginSuccessful
  | LoginSentCheckCookies
  | LoginFailedHTTP int

text \<open>
  \<open>perform_login\<close> gives what it returns, or the exception that leaves it: the two calls
  of \<open>urljoin\<close> stand outside the \<open>try\<close> blocks.
\<close>

definition perform_login ::
  "(pystr \<Rightarrow> bool) \<Rightarrow> (pystr \<Rightarrow> element list) \<Rightarrow> 'w http \<Rightarrow> pystr \<Rightarrow> pystr \<Rightarrow> pystr \<Rightarrow> 'w net
     \<Rightarrow> (exn + session option \<times> login_msg) \<times> 'w net" where
  "perform_login host_ok html_parser send username password base_url n0 =
     (case urljoin host_ok base_url [] of
        Inl e \<Rightarrow> (Inl e, n0)
      | Inr login_page_url \<Rightarrow>
         (let (reply, session1, n1) = session_get send login_page_url 15 new_session n0
          in case reply of
               Inl e \<Rightarrow> (Inr (None, CouldNotLoadPage e), n1)
             | Inr r \<Rightarrow>
                if status_code r \<noteq> 200 then (Inr (None, CouldNotLoadPageStatus (status_code r)), n1)
                else
                  (case soup_find (html_parser (resp_text r)) (ascii ''input'')
                          [(ascii ''name'', ascii ''_csrf_token'')] of
                     None \<Rightarrow> (Inr (None, CsrfTokenNotFound), n1)
                   | Some token_input \<Rightarrow>
                      (let csrf_token = tag_get token_input (ascii ''value'');
                           payload = [(ascii ''email'', Some username),
                                      (ascii ''password'', Some password),
                                      (ascii ''_csrf_token'', csrf_token),
                                      (ascii ''locale'', Some (ascii ''en_us'')),
                                      (ascii ''submit'', Some (ascii ''Login''))]
                       in case urljoin host_ok base_url (ascii ''/form/secursignin/signin'') of
                            Inl e \<Rightarrow> (Inl e, n1)
                          | Inr login_url \<Rightarrow>
                             (let (reply2, session2, n2) = session_post send login_url payload 15 session1 n1
                              in case reply2 of
                                   Inl e \<Rightarrow> (Inr (None, LoginRequestFailed e), n2)
                                 | Inr resp \<Rightarrow>
                                    if status_code resp = 200
                                       \<and> contains (ascii ''logout'') (lower (resp_text resp))
                                    then (Inr (Some session2, LoginSuccessful), n2)
                                    else if status_code resp \<in> {200, 302}
                                    then (Inr (Some session2, LoginSentCheckCookies), n2)
                                    else (Inr (None, LoginFailedHTTP (status_code resp)), n2))))))"

section \<open>Bulk download\<close>

text \<open>
  What the page shows: \<open>st.error\<close>, \<open>st.success\<close> and \<open>st.download_button\<close>, in order. The
  fixed headings and the table of the loaded CSV are left out.
\<close>

datatype message =
    FailedToReadCsv exn
  | MustContainColumns
  | FailedExc pystr exn
  | FailedStatus pystr int
  | Saved pystr
  | PleaseLoginFirst

datatype ui_event =
    StError message
  | StSuccess message
  | DownloadButton pystr bytes
  | DownloadZip "(pystr \<times> bytes) list"

text \<open>
  \<open>st.download_button(label, data, file_name, mime)\<close> without a \<open>key\<close>: Streamlit gives a
  widget an identity computed from its arguments and raises \<open>DuplicateWidgetID\<close> when a run
  creates a second widget with the identity of an earlier one. The label and the file name
  always enter the identity; what enters of the data depends on the Streamlit version and
  is the parameter \<open>tag\<close>. The loop's buttons have the label \<open>Download {filename}\<close>, the
  file name \<open>filename\<close> and the MIME type of a PDF.
\<close>

fun button_ids :: "(bytes \<Rightarrow> 'k) \<Rightarrow> ui_event list \<Rightarrow> (pystr \<times> 'k) list" where
  "button_ids tag [] = []"
| "button_ids tag (DownloadButton f b # evs) = (f, tag b) # button_ids tag evs"
| "button_ids tag (ev # evs) = button_ids tag evs"

definition st_download_button ::
  "(bytes \<Rightarrow> 'k) \<Rightarrow> pystr \<Rightarrow> bytes \<Rightarrow> ui_event list \<Rightarrow> exn + ui_event list" where
  "st_download_button tag fname data page =
     (if (fname, tag data) \<in> set (button_ids tag page) then Inl DuplicateWidgetID
      else Inr (page @ [DownloadButton fname data]))"

text \<open>
  The archive under construction is the list of its members, oldest first.
  \<open>zf.writestr(name, data)\<close> adds a member whatever the names already there.
  \<open>ZipInfo\<close> ends the member's name at the first null character (on a host whose path
  separator is the slash it changes nothing else). \<open>writestr\<close> then reads the last
  character of that name, which raises \<open>IndexError\<close> when nothing is left; the header is
  written with the name in UTF-8, which raises \<open>UnicodeEncodeError\<close> for a surrogate code
  point and \<open>struct.error\<close> when the name takes more than 65535 bytes. The member's time
  is the clock's, taken to be 1980 or later.
\<close>

definition utf8_len :: "nat \<Rightarrow> nat" where
  "utf8_len c = (if c < 128 then 1 else if c < 2048 then 2 else if c < 65536 then 3 else 4)"

definition is_surrogate :: "nat \<Rightarrow> bool" where
  "is_surrogate c = (55296 \<le> c \<and> c \<le> 57343)"

definition member_name :: "pystr \<Rightarrow> pystr" where
  "member_name name = takeWhile (\<lambda>c. c \<noteq> 0) name"

definition zip_name_error :: "pystr \<Rightarrow> exn option" where
  "zip_name_error name =
     (if member_name name = [] then Some IndexError
      else if list_ex is_surrogate (member_name name) then Some UnicodeEncodeError
      else if 65535 < sum_list (map utf8_len (member_name name)) then Some StructError
      else None)"

definition writestr :: "(pystr \<times> bytes) list \<Rightarrow> pystr \<Rightarrow> bytes \<Rightarrow> exn + (pystr \<times> bytes) list" where
  "writestr zf name data =
     (case zip_name_error name of
        Some e \<Rightarrow> Inl e
      | None \<Rightarrow> Inr (zf @ [(member_name name, data)]))"

record 'w batch =
  b_session :: session
  b_net :: "'w net"
  b_zip :: "(pystr \<times> bytes) list"
  b_ui :: "ui_event list"

text \<open>
  The body of the loop over \<open>df.iterrows()\<close>. It gives the state after the row and the
  exception that left the loop, if one did: only the exceptions of \<open>session.get\<close> are caught.
  The state is that of the moment the exception was raised.
\<close>

definition fetch_row ::
  "'w http \<Rightarrow> (bytes \<Rightarrow> 'k) \<Rightarrow> pystr \<Rightarrow> row \<Rightarrow> 'w batch \<Rightarrow> exn option \<times> 'w batch" where
  "fetch_row send tag rbu r st =
     (case descriptor_of r of
        Inl e \<Rightarrow> (Some e, st)
      | Inr d \<Rightarrow>
         (let fname = filename d;
              (reply, session', n') = session_get send (pdf_url rbu d) 20 (b_session st) (b_net st);
              st' = st\<lparr>b_session := session', b_net := n'\<rparr>
          in case reply of
               Inl e \<Rightarrow> (None, st'\<lparr>b_ui := b_ui st' @ [StError (FailedExc (py_str (rid d)) e)]\<rparr>)
             | Inr resp \<Rightarrow>
                if status_code resp = 200 \<and> startswith (content resp) ''%PDF''
                then
                  (case writestr (b_zip st') fname (content resp) of
                     Inl e \<Rightarrow> (Some e, st')
                   | Inr zf \<Rightarrow>
                      (let saved = st'\<lparr>b_zip := zf, b_ui := b_ui st' @ [StSuccess (Saved fname)]\<rparr>
                       in case st_download_button tag fname (content resp) (b_ui saved) of
                            Inl e \<Rightarrow> (Some e, saved)
                          | Inr page \<Rightarrow> (None, saved\<lparr>b_ui := page\<rparr>)))
                else (None, st'\<lparr>b_ui := b_ui st' @ [StError (FailedStatus (py_str (rid d)) (status_code resp))]\<rparr>)))"

fun fetch_rows ::
  "'w http \<Rightarrow> (bytes \<Rightarrow> 'k) \<Rightarrow> pystr \<Rightarrow> row list \<Rightarrow> 'w batch \<Rightarrow> exn option \<times> 'w batch" where
  "fetch_rows send tag rbu [] st = (None, st)"
| "fetch_rows send tag rbu (r # rs) st =
     (case fetch_row send tag rbu r st of
        (Some e, st') \<Rightarrow> (Some e, st')
      | (None, st') \<Rightarrow> fetch_rows send tag rbu rs st')"

definition required_cols :: "pystr list" where
  "required_cols = [ascii ''id'', ascii ''reportname'', ascii ''account.name'', ascii ''date'']"

text \<open>
  The part of the script after the upload widget. \<open>uploaded_csv\<close> is \<open>None\<close> when nothing is
  uploaded, and otherwise what \<open>pd.read_csv\<close> makes of the file: an exception or a frame.
  \<open>state\<close> is the session stored by an earlier login, if any. \<open>st.stop()\<close> ends the run with
  the page as it is; an uncaught exception ends it too and is kept in \<open>uncaught\<close>. The
  archive is offered by the button \<open>Download ZIP\<close>, whose label no button of the loop has.
\<close>

record 'w page =
  ui :: "ui_event list"
  session_state :: "session option"
  net :: "'w net"
  uncaught :: "exn option"

definition bulk_download ::
  "'w http \<Rightarrow> (bytes \<Rightarrow> 'k) \<Rightarrow> (pystr \<Rightarrow> bool) \<Rightarrow> pystr \<Rightarrow> (exn + dataframe) option
     \<Rightarrow> session option \<Rightarrow> 'w net \<Rightarrow> 'w page" where
  "bulk_download send tag host_ok base_url uploaded_csv state n =
     (case uploaded_csv of
        None \<Rightarrow> \<lparr>ui = [], session_state = state, net = n, uncaught = None\<rparr>
      | Some csv \<Rightarrow>
         (case state of
            None \<Rightarrow> \<lparr>ui = [StError PleaseLoginFirst], session_state = state, net = n, uncaught = None\<rparr>
          | Some session \<Rightarrow>
             (case csv of
                Inl e \<Rightarrow> \<lparr>ui = [StError (FailedToReadCsv e)], session_state = state, net = n, uncaught = None\<rparr>
              | Inr df \<Rightarrow>
                 if \<not> set required_cols \<subseteq> set (columns df)
                 then \<lparr>ui = [StError MustContainColumns], session_state = state, net = n, uncaught = None\<rparr>
                 else
                   (case report_base_url host_ok base_url of
                      Inl e \<Rightarrow> \<lparr>ui = [], session_state = state, net = n, uncaught = Some e\<rparr>
                    | Inr rbu \<Rightarrow>
                       (case fetch_rows send tag rbu (iterrows df)
                               \<lparr>b_session = session, b_net = n, b_zip = [], b_ui = []\<rparr> of
                          (Some e, st) \<Rightarrow>
                            \<lparr>ui = b_ui st, session_state = Some (b_session st), net = b_net st,
                             uncaught = Some e\<rparr>
                        | (None, st) \<Rightarrow>
                            \<lparr>ui = b_ui st @ [DownloadZip (b_zip st)], session_state = Some (b_session st),
                             net = b_net st, uncaught = None\<rparr>)))))"

section \<open>The batch as the specification describes it\<close>

text \<open>
  The specification's \<open>FetchResult\<close>: a filename with the PDF bytes, or the identifier with
  the exception or the HTTP status. \<open>spec_fetch_result\<close> is its rule for one descriptor and
  the exchange made for it; \<open>spec_log\<close> and \<open>spec_members\<close> are what one result adds to the
  page and to the archive.
\<close>

datatype fetch_result = Success pystr bytes | Failure pystr "exn + int"

definition spec_fetch_result :: "descriptor \<Rightarrow> exchange \<Rightarrow> fetch_result" where
  "spec_fetch_result d x =
     (case result x of
        Inl e \<Rightarrow> Failure (py_str (rid d)) (Inl e)
      | Inr r \<Rightarrow>
         if status_code r = 200 \<and> take 4 (content r) = ''%PDF''
         then Success (filename d) (content r)
         else Failure (py_str (rid d)) (Inr (status_code r)))"

fun spec_log :: "fetch_result \<Rightarrow> ui_event list" where
  "spec_log (Success f b) = [StSuccess (Saved f), DownloadButton f b]"
| "spec_log (Failure i (Inl e)) = [StError (FailedExc i e)]"
| "spec_log (Failure i (Inr c)) = [StError (FailedStatus i c)]"

fun spec_members :: "fetch_result \<Rightarrow> (pystr \<times> bytes) list" where
  "spec_members (Success f b) = [(member_name f, b)]"
| "spec_members (Failure i e) = []"

text \<open>The identity of the download button a result puts on the page, if it puts one.\<close>

fun spec_buttons :: "(bytes \<Rightarrow> 'k) \<Rightarrow> fetch_result \<Rightarrow> (pystr \<times> 'k) list" where
  "spec_buttons tag (Success f b) = [(f, tag b)]"
| "spec_buttons tag (Failure i e) = []"

text \<open>
  The requests of a batch over the descriptors \<open>ds\<close>, one GET each and in their order, with
  the exchange each one gets: the session a request is built from has the cookies of the
  exchanges before it.
\<close>

definition keep_cookies :: "exchange \<Rightarrow> session \<Rightarrow> session" where
  "keep_cookies x s = s\<lparr>cookies := store_cookies (cookies_set x) (cookies s)\<rparr>"

fun exchanges :: "'w http \<Rightarrow> pystr \<Rightarrow> descriptor list \<Rightarrow> session \<Rightarrow> 'w \<Rightarrow> (request \<times> exchange) list" where
  "exchanges send rbu [] s w = []"
| "exchanges send rbu (d # ds) s w =
     (let rq = build_request GET (pdf_url rbu d) [] 20 s;
          (x, w') = send rq w
      in (rq, x) # exchanges send rbu ds (keep_cookies x s) w')"

definition spec_results :: "'w http \<Rightarrow> pystr \<Rightarrow> descriptor list \<Rightarrow> session \<Rightarrow> 'w \<Rightarrow> fetch_result list" where
  "spec_results send rbu ds s w = map2 spec_fetch_result ds (map snd (exchanges send rbu ds s w))"

section \<open>A portal to run the program against\<close>

text \<open>
  A parser that knows three pages, and a portal with three hosts. \<open>portal.example\<close> serves a
  login page with a token; it signs \<open>alice\<close> in with a page that offers \<open>Logout\<close>, answers
  \<open>bob\<close> with a plain page, \<open>carol\<close> with a bare 302 and everyone else with 403; report 2 is
  missing, report 7 times out, report 9 is an HTML error page and every other report is a
  PDF. \<open>novalue.example\<close> has a token field without a value, \<open>cookie.example\<close> sets a cookie
  with every report, and any other host serves a page without a token field. The portal's
  state counts the requests it has seen.
\<close>

definition demo_parser :: "pystr \<Rightarrow> element list" where
  "demo_parser t =
     (if t = ascii ''<input name=_csrf_token value=tok>''
      then [\<lparr>tag_name = ascii ''input'',
             attrs = [(ascii ''name'', ascii ''_csrf_token''), (ascii ''value'', ascii ''tok'')]\<rparr>]
      else if t = ascii ''<input name=_csrf_token>''
      then [\<lparr>tag_name = ascii ''input'', attrs = [(ascii ''name'', ascii ''_csrf_token'')]\<rparr>]
      else [])"

definition demo_key :: "string \<Rightarrow> string \<Rightarrow> cookie_key" where
  "demo_key host name = (ascii host, ascii ''/'', ascii name)"

text \<open>The demonstrations never reach the checks that \<open>host_ok\<close> stands for.\<close>

definition demo_host_ok :: "pystr \<Rightarrow> bool" where
  "demo_host_ok netloc = False"

definition ok_page :: "pystr \<Rightarrow> exchange" where
  "ok_page t = \<lparr>result = Inr \<lparr>status_code = 200, resp_text = t, content = []\<rparr>, cookies_set = []\<rparr>"

definition status_only :: "int \<Rightarrow> exchange" where
  "status_only c = \<lparr>result = Inr \<lparr>status_code = c, resp_text = [], content = []\<rparr>, cookies_set = []\<rparr>"

definition pdf_reply :: "(cookie_key \<times> pystr option) list \<Rightarrow> exchange" where
  "pdf_reply cs = \<lparr>result = Inr \<lparr>status_code = 200, resp_text = [], content = ''%PDFfakebytes''\<rparr>,
                   cookies_set = cs\<rparr>"

definition demo_reports :: pystr where
  "demo_reports = ascii ''https://portal.example/patrol/default/viewreportprintable/idreport/''"

definition demo_reply :: "request \<Rightarrow> exchange" where
  "demo_reply rq =
     (if req_method rq = POST then
        (if map_of (req_data rq) (ascii ''email'') = Some (Some (ascii ''alice''))
         then (ok_page (ascii ''<a href=/out>Logout</a>''))\<lparr>cookies_set := [(demo_key ''portal.example'' ''auth'', Some (ascii ''yes''))]\<rparr>
         else if map_of (req_data rq) (ascii ''email'') = Some (Some (ascii ''bob''))
         then ok_page (ascii ''<p>Welcome</p>'')
         else if map_of (req_data rq) (ascii ''email'') = Some (Some (ascii ''carol''))
         then status_only 302
         else status_only 403)
      else if req_url rq = ascii ''https://portal.example''
      then (ok_page (ascii ''<input name=_csrf_token value=tok>''))\<lparr>cookies_set := [(demo_key ''portal.example'' ''sid'', Some (ascii ''s1''))]\<rparr>
      else if req_url rq = ascii ''https://novalue.example''
      then ok_page (ascii ''<input name=_csrf_token>'')
      else if req_url rq = demo_reports @ ascii ''2'' then status_only 404
      else if req_url rq = demo_reports @ ascii ''7''
      then \<lparr>result = Inl (Exception (ascii ''Read timed out.'')), cookies_set = []\<rparr>
      else if req_url rq = demo_reports @ ascii ''9''
      then \<lparr>result = Inr \<lparr>status_code = 200, resp_text = ascii ''<html>error</html>'',
                            content = ''<html>error</html>''\<rparr>, cookies_set = []\<rparr>
      else if startswith (req_url rq) demo_reports then pdf_reply []
      else if startswith (req_url rq) (ascii ''https://cookie.example/patrol/'')
      then pdf_reply [(demo_key ''cookie.example'' ''seen'', Some (ascii ''1''))]
      else ok_page (ascii ''<p>maintenance</p>''))"

definition demo_send :: "nat http" where
  "demo_send rq w = (demo_reply rq, Suc w)"

definition demo_row :: "string \<Rightarrow> row" where
  "demo_row i = [(ascii ''id'', Str (ascii i)), (ascii ''reportname'', Str (ascii ''Daily'')),
                 (ascii ''account.name'', Str (ascii ''ACME'')), (ascii ''date'', Str (ascii ''1/2''))]"

definition demo_descriptor :: "string \<Rightarrow> descriptor" where
  "demo_descriptor i = \<lparr>rid = Str (ascii i), reportname = Str (ascii ''Daily''),
                        account_name = Str (ascii ''ACME''), date = Str (ascii ''1/2'')\<rparr>"

definition demo_batch :: "nat batch" where
  "demo_batch = \<lparr>b_session = new_session\<lparr>cookies := [(demo_key ''portal.example'' ''sid'', ascii ''s1''),
                                                (demo_key ''portal.example'' ''auth'', ascii ''yes'')]\<rparr>,
                  b_net = \<lparr>world = 2, sent = []\<rparr>, b_zip = [], b_ui = []\<rparr>"

definition demo_frame :: "string list \<Rightarrow> dataframe" where
  "demo_frame ids = \<lparr>columns = map fst (demo_row ''''), rows = map (\<lambda>i. map snd (demo_row i)) ids\<rparr>"

definition cookie_reports :: pystr where
  "cookie_reports = ascii ''https://cookie.example/patrol/default/viewreportprintable/idreport/''"

section \<open>Properties of the helper functions\<close>

subsection \<open>Sanitized names\<close>

lemma length_re_sub_class_single: "length (re_sub_class cls [r] s) = length s"
  by (induction s) (simp_all add: re_sub_class_def)

lemma nth_re_sub_class_single:
  "i < length s \<Longrightarrow> re_sub_class cls [r] s ! i = (if s ! i \<in> set cls then r else s ! i)"
proof (induction s arbitrary: i)
  case Nil
  then show ?case by simp
next
  case (Cons c s)
  have step: "re_sub_class cls [r] (c # s) = (if c \<in> set cls then r else c) # re_sub_class cls [r] s"
    by (simp add: re_sub_class_def)
  show ?case
  proof (cases i)
    case 0
    then show ?thesis by (simp add: step)
  next
    case (Suc j)
    with Cons show ?thesis by (simp add: step)
  qed
qed

lemma set_re_sub_class_single:
  "set (re_sub_class cls [r] s) \<subseteq> (set s - set cls) \<union> {r}"
  by (induction s) (auto simp: re_sub_class_def)

lemma re_sub_class_id: "set s \<inter> set cls = {} \<Longrightarrow> re_sub_class cls repl s = s"
  by (induction s) (simp_all add: re_sub_class_def)

lemma underscore_allowed: "95 \<notin> set forbidden"
  by (simp add: forbidden_def)

text \<open>
  C4. For every string \<open>s\<close>: the sanitized text has none of the nine forbidden characters;
  it has the length of \<open>s\<close>; at each position it carries an underscore where \<open>s\<close> has a
  forbidden character and the character of \<open>s\<close> otherwise (whatever code point that is);
  and it is \<open>s\<close> itself when \<open>s\<close> has no forbidden character.
\<close>

theorem safe_filename_sanitizes:
  "set (safe_filename (Str s)) \<inter> set forbidden = {}
   \<and> length (safe_filename (Str s)) = length s
   \<and> (\<forall>i < length s. safe_filename (Str s) ! i = (if s ! i \<in> set forbidden then 95 else s ! i))
   \<and> (set s \<inter> set forbidden = {} \<longrightarrow> safe_filename (Str s) = s)"
proof -
  have u: "ascii ''_'' = [95]" by (simp add: ascii_def)
  have a: "set (safe_filename (Str s)) \<inter> set forbidden = {}"
    using set_re_sub_class_single [of forbidden 95 s] underscore_allowed
    by (auto simp: safe_filename_def u)
  have b: "length (safe_filename (Str s)) = length s"
    by (simp add: safe_filename_def u length_re_sub_class_single)
  have c: "\<forall>i < length s. safe_filename (Str s) ! i = (if s ! i \<in> set forbidden then 95 else s ! i)"
    by (simp add: safe_filename_def u nth_re_sub_class_single)
  have d: "set s \<inter> set forbidden = {} \<longrightarrow> safe_filename (Str s) = s"
    by (simp add: safe_filename_def re_sub_class_id)
  from a b c d show ?thesis by blast
qed

text \<open>The text \<open>a/b: \<close> followed by the code points 233 and 8364, beyond ASCII, and a bar.\<close>

theorem safe_filename_sanitizes_witness:
  "safe_filename (Str [97, 47, 98, 58, 32, 233, 8364, 124]) = [97, 95, 98, 95, 32, 233, 8364, 95]
   \<and> set (safe_filename (Str [97, 47, 98, 58, 32, 233, 8364, 124])) \<inter> set forbidden = {}
   \<and> length (safe_filename (Str [97, 47, 98, 58, 32, 233, 8364, 124])) = 8
   \<and> safe_filename (Str [32, 233, 8364]) = [32, 233, 8364]"
  using safe_filename_sanitizes [of "[97, 47, 98, 58, 32, 233, 8364, 124]"]
    safe_filename_sanitizes [of "[32, 233, 8364]"]
  by (simp add: safe_filename_def re_sub_class_def forbidden_def ascii_def)


lemma ascii_Cons: "ascii (c # cs) = of_char c # ascii cs"
  by (simp add: ascii_def)

lemma ascii_Nil: "ascii [] = []"
  by (simp add: ascii_def)

lemmas ascii_simps = ascii_Nil ascii_Cons

subsection \<open>Resolving the report path against the base URL\<close>

lemma url_clean_id:
  assumes "u \<noteq> []" "32 < hd u" "set u \<inter> {9, 10, 13} = {}"
  shows "url_clean u = u"
proof -
  from assms(1) obtain c cs where u: "u = c # cs" by (cases u) auto
  with assms(2) have "dropWhile (\<lambda>c. c \<le> 32) u = u" by simp
  moreover from assms(3) have "filter (\<lambda>c. c \<notin> {9, 10, 13}) u = u"
    by (intro filter_True) auto
  ultimately show ?thesis by (simp add: url_clean_def)
qed

lemma split_scheme_http:
  "split_scheme (ascii ''http'' @ ascii ''://'' @ r) = (ascii ''http'', ascii ''//'' @ r)"
  by (simp add: split_scheme_def ascii_simps is_ascii_alpha_def scheme_chars_def lower_def lower_cp_def)

lemma split_scheme_https:
  "split_scheme (ascii ''https'' @ ascii ''://'' @ r) = (ascii ''https'', ascii ''//'' @ r)"
  by (simp add: split_scheme_def ascii_simps is_ascii_alpha_def scheme_chars_def lower_def lower_cp_def)

lemma split_netloc_host:
  assumes "set h \<inter> set (ascii ''/?#'') = {}" "p = [] \<or> hd p \<in> set (ascii ''/?#'')"
  shows "fst (split_netloc (ascii ''//'' @ h @ p)) = h"
proof -
  have h: "\<forall>c \<in> set h. c \<notin> set (ascii ''/?#'')" using assms(1) by auto
  have "takeWhile (\<lambda>c. c \<notin> set (ascii ''/?#'')) (h @ p) = h"
  proof (cases p)
    case Nil
    then show ?thesis using h by simp
  next
    case (Cons c cs)
    with assms(2) have "c \<in> set (ascii ''/?#'')" by simp
    with h Cons show ?thesis by (simp add: takeWhile_append2)
  qed
  then show ?thesis by (simp add: split_netloc_def ascii_simps)
qed

lemma http_uses: "ascii ''http'' \<in> set uses_relative" "ascii ''http'' \<in> set uses_netloc"
  "ascii ''https'' \<in> set uses_relative" "ascii ''https'' \<in> set uses_netloc"
  by (simp_all add: uses_relative_def uses_netloc_def ascii_simps)

lemma netloc_check_plain:
  "91 \<notin> set h \<Longrightarrow> 93 \<notin> set h \<Longrightarrow> \<forall>c \<in> set h. c < 128 \<Longrightarrow> netloc_check host_ok h"
  by (simp add: netloc_check_def list_all_iff)

lemma netloc_check_one_bracket:
  "(91 \<in> set h) \<noteq> (93 \<in> set h) \<Longrightarrow> \<not> netloc_check host_ok h"
  by (simp add: netloc_check_def)

lemma bases: 
  assumes s: "s = ascii ''http'' \<or> s = ascii ''https''"
    and h: "set h \<inter> set (ascii ''/?#'') = {}"
    and ws: "set (h @ p) \<inter> {9, 10, 13} = {}"
    and p: "p = [] \<or> hd p \<in> set (ascii ''/?#'')"
  shows "s @ ascii ''://'' @ h @ p \<noteq> []"
    and "split_scheme (url_clean (s @ ascii ''://'' @ h @ p)) = (s, ascii ''//'' @ h @ p)"
    and "fst (split_netloc (ascii ''//'' @ h @ p)) = h"
proof -
  let ?b = "s @ ascii ''://'' @ h @ p"
  show ne: "?b \<noteq> []" using s by (auto simp: ascii_simps)
  have hd: "32 < hd ?b" using s by (auto simp: ascii_simps)
  have "set (s @ ascii ''://'') \<inter> {9, 10, 13} = {}" using s by (auto simp: ascii_simps)
  with ws have "set ?b \<inter> {9, 10, 13} = {}" by auto
  with ne hd have clean: "url_clean ?b = ?b" by (rule url_clean_id)
  show "split_scheme (url_clean ?b) = (s, ascii ''//'' @ h @ p)"
    unfolding clean using s split_scheme_http split_scheme_https by auto
  show "fst (split_netloc (ascii ''//'' @ h @ p)) = h"
    using h p by (rule split_netloc_host)
qed

lemma urljoin_http_abs_path:
  assumes s: "s = ascii ''http'' \<or> s = ascii ''https''"
    and h: "set h \<inter> set (ascii ''/?#'') = {}"
    and ws: "set (h @ p) \<inter> {9, 10, 13} = {}"
    and p: "p = [] \<or> hd p \<in> set (ascii ''/?#'')"
    and plain: "91 \<notin> set h" "93 \<notin> set h" "\<forall>c \<in> set h. c < 128"
  shows "urljoin host_ok (s @ ascii ''://'' @ h @ p) (47 # path) = Inr (s @ ascii ''://'' @ h @ 47 # path)"
proof -
  note b = bases [OF s h ws p]
  have rel: "s \<in> set uses_relative" and net: "s \<in> set uses_netloc" and sne: "s \<noteq> []"
    using s http_uses by (auto simp: ascii_simps)
  have un: "urlunsplit s h (47 # path) = s @ ascii ''://'' @ h @ 47 # path"
    using net sne by (simp add: urlunsplit_def ascii_simps)
  have ok: "netloc_check host_ok h" using plain by (rule netloc_check_plain)
  show ?thesis
    using b rel un ok by (simp add: urljoin_def)
qed

lemma urljoin_one_bracket:
  assumes s: "s = ascii ''http'' \<or> s = ascii ''https''"
    and h: "set h \<inter> set (ascii ''/?#'') = {}"
    and ws: "set (h @ p) \<inter> {9, 10, 13} = {}"
    and p: "p = [] \<or> hd p \<in> set (ascii ''/?#'')"
    and odd: "(91 \<in> set h) \<noteq> (93 \<in> set h)"
  shows "urljoin host_ok (s @ ascii ''://'' @ h @ p) (47 # path) = Inl ValueError"
proof -
  note b = bases [OF s h ws p]
  have "\<not> netloc_check host_ok h" using odd by (rule netloc_check_one_bracket)
  then show ?thesis using b by (simp add: urljoin_def)
qed

lemma urljoin_empty: "urljoin host_ok b [] = Inr b"
  by (simp add: urljoin_def)

section \<open>Properties of the loop body\<close>

lemma button_ids_append: "button_ids tag (a @ b) = button_ids tag a @ button_ids tag b"
  by (induction tag a rule: button_ids.induct) simp_all

lemma startswith_take: "startswith s p \<longleftrightarrow> take (length p) s = p"
  by (induction s p rule: startswith.induct) auto

lemma startswith_pdf: "startswith c ''%PDF'' \<longleftrightarrow> take 4 c = ''%PDF''"
  using startswith_take [of c "''%PDF''"] by (simp add: eval_nat_numeral)

lemma startswith_append: "startswith (p @ s) p"
  by (induction p) auto

lemma store_cookies_Nil: "store_cookies [] j = j"
  by (simp add: store_cookies_def)

lemma session_get_result:
  "session_get send u t s n =
     (result (fst (send (build_request GET u [] t s) (world n))),
      keep_cookies (fst (send (build_request GET u [] t s) (world n))) s,
      \<lparr>world = snd (send (build_request GET u [] t s) (world n)), sent = sent n @ [build_request GET u [] t s]\<rparr>)"
  by (simp add: session_get_def session_request_def keep_cookies_def Let_def split: prod.splits)

lemma session_post_result:
  "session_post send u d t s n =
     (result (fst (send (build_request POST u d t s) (world n))),
      keep_cookies (fst (send (build_request POST u d t s) (world n))) s,
      \<lparr>world = snd (send (build_request POST u d t s) (world n)), sent = sent n @ [build_request POST u d t s]\<rparr>)"
  by (simp add: session_post_def session_request_def keep_cookies_def Let_def split: prod.splits)

text \<open>
  The loop body, outcome by outcome, for a row with the descriptor \<open>d\<close>. In each of them the
  request has been made and the session has the cookies of the exchange.
\<close>

lemma fetch_row_exception:
  assumes "descriptor_of r = Inr d"
    and "result (fst (send (build_request GET (pdf_url rbu d) [] 20 (b_session st)) (world (b_net st)))) = Inl e"
  shows "fetch_row send tag rbu r st =
     (None,
      st\<lparr>b_session := keep_cookies (fst (send (build_request GET (pdf_url rbu d) [] 20 (b_session st)) (world (b_net st)))) (b_session st),
         b_net := \<lparr>world = snd (send (build_request GET (pdf_url rbu d) [] 20 (b_session st)) (world (b_net st))),
                   sent = sent (b_net st) @ [build_request GET (pdf_url rbu d) [] 20 (b_session st)]\<rparr>,
         b_ui := b_ui st @ [StError (FailedExc (py_str (rid d)) e)]\<rparr>)"
  using assms by (simp add: fetch_row_def session_get_result Let_def)

lemma fetch_row_invalid:
  assumes "descriptor_of r = Inr d"
    and "result (fst (send (build_request GET (pdf_url rbu d) [] 20 (b_session st)) (world (b_net st)))) = Inr resp"
    and "\<not> (status_code resp = 200 \<and> take 4 (content resp) = ''%PDF'')"
  shows "fetch_row send tag rbu r st =
     (None,
      st\<lparr>b_session := keep_cookies (fst (send (build_request GET (pdf_url rbu d) [] 20 (b_session st)) (world (b_net st)))) (b_session st),
         b_net := \<lparr>world = snd (send (build_request GET (pdf_url rbu d) [] 20 (b_session st)) (world (b_net st))),
                   sent = sent (b_net st) @ [build_request GET (pdf_url rbu d) [] 20 (b_session st)]\<rparr>,
         b_ui := b_ui st @ [StError (FailedStatus (py_str (rid d)) (status_code resp))]\<rparr>)"
proof -
  from assms(3) have nv: "(status_code resp = 200 \<and> startswith (content resp) ''%PDF'') = False"
    by (simp add: startswith_pdf)
  show ?thesis
    using assms(1,2) by (simp add: fetch_row_def session_get_result Let_def nv)
qed

lemma fetch_row_refused_name:
  assumes "descriptor_of r = Inr d"
    and "result (fst (send (build_request GET (pdf_url rbu d) [] 20 (b_session st)) (world (b_net st)))) = Inr resp"
    and "status_code resp = 200" "take 4 (content resp) = ''%PDF''"
    and "zip_name_error (filename d) = Some e"
  shows "fetch_row send tag rbu r st =
     (Some e,
      st\<lparr>b_session := keep_cookies (fst (send (build_request GET (pdf_url rbu d) [] 20 (b_session st)) (world (b_net st)))) (b_session st),
         b_net := \<lparr>world = snd (send (build_request GET (pdf_url rbu d) [] 20 (b_session st)) (world (b_net st))),
                   sent = sent (b_net st) @ [build_request GET (pdf_url rbu d) [] 20 (b_session st)]\<rparr>\<rparr>)"
  using assms by (simp add: fetch_row_def session_get_result Let_def startswith_pdf writestr_def)

lemma fetch_row_duplicate:
  assumes "descriptor_of r = Inr d"
    and "result (fst (send (build_request GET (pdf_url rbu d) [] 20 (b_session st)) (world (b_net st)))) = Inr resp"
    and "status_code resp = 200" "take 4 (content resp) = ''%PDF''"
    and "zip_name_error (filename d) = None"
    and "(filename d, tag (content resp)) \<in> set (button_ids tag (b_ui st))"
  shows "fetch_row send tag rbu r st =
     (Some DuplicateWidgetID,
      st\<lparr>b_session := keep_cookies (fst (send (build_request GET (pdf_url rbu d) [] 20 (b_session st)) (world (b_net st)))) (b_session st),
         b_net := \<lparr>world = snd (send (build_request GET (pdf_url rbu d) [] 20 (b_session st)) (world (b_net st))),
                   sent = sent (b_net st) @ [build_request GET (pdf_url rbu d) [] 20 (b_session st)]\<rparr>,
         b_zip := b_zip st @ [(member_name (filename d), content resp)],
         b_ui := b_ui st @ [StSuccess (Saved (filename d))]\<rparr>)"
  using assms
  by (simp add: fetch_row_def session_get_result Let_def startswith_pdf writestr_def
      st_download_button_def button_ids_append)

lemma fetch_row_saved:
  assumes "descriptor_of r = Inr d"
    and "result (fst (send (build_request GET (pdf_url rbu d) [] 20 (b_session st)) (world (b_net st)))) = Inr resp"
    and "status_code resp = 200" "take 4 (content resp) = ''%PDF''"
    and "zip_name_error (filename d) = None"
    and "(filename d, tag (content resp)) \<notin> set (button_ids tag (b_ui st))"
  shows "fetch_row send tag rbu r st =
     (None,
      st\<lparr>b_session := keep_cookies (fst (send (build_request GET (pdf_url rbu d) [] 20 (b_session st)) (world (b_net st)))) (b_session st),
         b_net := \<lparr>world = snd (send (build_request GET (pdf_url rbu d) [] 20 (b_session st)) (world (b_net st))),
                   sent = sent (b_net st) @ [build_request GET (pdf_url rbu d) [] 20 (b_session st)]\<rparr>,
         b_zip := b_zip st @ [(member_name (filename d), content resp)],
         b_ui := b_ui st @ [StSuccess (Saved (filename d)), DownloadButton (filename d) (content resp)]\<rparr>)"
  using assms
  by (simp add: fetch_row_def session_get_result Let_def startswith_pdf writestr_def
      st_download_button_def button_ids_append)

lemma fetch_row_key_error:
  "descriptor_of r = Inl e \<Longrightarrow> fetch_row send tag rbu r st = (Some e, st)"
  by (simp add: fetch_row_def)

subsection \<open>Names the archive refuses\<close>

lemma length_le_utf8: "length name \<le> sum_list (map utf8_len name)"
  by (induction name) (simp_all add: utf8_len_def)

text \<open>A name without null characters and surrogates that is longer than 65535 characters
  is refused with \<open>struct.error\<close>, and one that starts with a null character with
  \<open>IndexError\<close>.\<close>

lemma zip_name_error_long:
  assumes "0 \<notin> set name" "\<not> list_ex is_surrogate name" "65535 < length name"
  shows "zip_name_error name = Some StructError"
proof -
  from assms(1) have m: "member_name name = name"
  proof -
    have "c \<noteq> 0" if "c \<in> set name" for c using that assms(1) by (cases "c = 0") simp_all
    then show ?thesis by (simp add: member_name_def takeWhile_eq_all_conv)
  qed
  from assms(3) have ne: "name \<noteq> []" by auto
  from assms(3) length_le_utf8 [of name] have long: "65535 < sum_list (map utf8_len name)"
    by simp
  show ?thesis
    using m ne long assms(2) by (simp add: zip_name_error_def)
qed

lemma zip_name_error_nul: "zip_name_error (0 # name) = Some IndexError"
  by (simp add: zip_name_error_def member_name_def)

subsection \<open>The requests of the loop\<close>

lemma fetch_row_sent_exact:
  assumes "descriptor_of r = Inr d"
  shows "sent (b_net (snd (fetch_row send tag rbu r st)))
           = sent (b_net st) @ [build_request GET (rbu @ py_str (rid d)) [] 20 (b_session st)]"
  using assms
  by (simp add: fetch_row_def session_get_result Let_def pdf_url_def split: sum.splits)

lemma fetch_row_sent_key_error:
  "descriptor_of r = Inl e \<Longrightarrow> sent (b_net (snd (fetch_row send tag rbu r st))) = sent (b_net st)"
  by (simp add: fetch_row_def)

lemma snd_fetch_rows_Cons:
  "snd (fetch_rows send tag rbu (r # rs) st)
     = (if fst (fetch_row send tag rbu r st) = None
        then snd (fetch_rows send tag rbu rs (snd (fetch_row send tag rbu r st)))
        else snd (fetch_row send tag rbu r st))"
  by (cases "fetch_row send tag rbu r st") (auto split: option.splits)

lemma fst_fetch_rows_Cons:
  "fst (fetch_rows send tag rbu (r # rs) st)
     = (if fst (fetch_row send tag rbu r st) = None
        then fst (fetch_rows send tag rbu rs (snd (fetch_row send tag rbu r st)))
        else fst (fetch_row send tag rbu r st))"
  by (cases "fetch_row send tag rbu r st") (auto split: option.splits)

text \<open>Every request of the loop is the GET of the report base URL followed by the
  identifier text of one of the rows.\<close>

lemma fetch_rows_requests:
  "\<exists>rqs. sent (b_net (snd (fetch_rows send tag rbu rws st))) = sent (b_net st) @ rqs
     \<and> (\<forall>rq \<in> set rqs. req_method rq = GET
           \<and> (\<exists>r \<in> set rws. \<exists>d. descriptor_of r = Inr d \<and> req_url rq = rbu @ py_str (rid d)))"
proof (induction rws arbitrary: st)
  case Nil
  then show ?case by simp
next
  case (Cons r rs)
  let ?st1 = "snd (fetch_row send tag rbu r st)"
  have one: "\<exists>rq1. sent (b_net ?st1) = sent (b_net st) @ rq1
     \<and> (\<forall>rq \<in> set rq1. req_method rq = GET
           \<and> (\<exists>d. descriptor_of r = Inr d \<and> req_url rq = rbu @ py_str (rid d)))"
  proof (cases "descriptor_of r")
    case (Inl e)
    then show ?thesis by (simp add: fetch_row_sent_key_error)
  next
    case (Inr d)
    then show ?thesis by (simp add: fetch_row_sent_exact build_request_def)
  qed
  then obtain rq1 where rq1: "sent (b_net ?st1) = sent (b_net st) @ rq1"
    "\<forall>rq \<in> set rq1. req_method rq = GET
           \<and> (\<exists>d. descriptor_of r = Inr d \<and> req_url rq = rbu @ py_str (rid d))"
    by blast
  show ?case
  proof (cases "fst (fetch_row send tag rbu r st) = None")
    case False
    have eq: "snd (fetch_rows send tag rbu (r # rs) st) = ?st1"
      by (subst snd_fetch_rows_Cons) (rule if_not_P [OF False])
    show ?thesis unfolding eq using rq1 by auto
  next
    case True
    have eq: "snd (fetch_rows send tag rbu (r # rs) st) = snd (fetch_rows send tag rbu rs ?st1)"
      by (subst snd_fetch_rows_Cons) (rule if_P [OF True])
    from Cons.IH [of ?st1] obtain rq2 where
      rq2: "sent (b_net (snd (fetch_rows send tag rbu rs ?st1))) = sent (b_net ?st1) @ rq2"
        "\<forall>rq \<in> set rq2. req_method rq = GET
           \<and> (\<exists>r \<in> set rs. \<exists>d. descriptor_of r = Inr d \<and> req_url rq = rbu @ py_str (rid d))"
      by blast
    have a: "sent (b_net (snd (fetch_rows send tag rbu rs ?st1))) = sent (b_net st) @ (rq1 @ rq2)"
      using rq1(1) rq2(1) by simp
    have b: "\<forall>rq \<in> set (rq1 @ rq2). req_method rq = GET
           \<and> (\<exists>r' \<in> set (r # rs). \<exists>d. descriptor_of r' = Inr d \<and> req_url rq = rbu @ py_str (rid d))"
      using rq1(2) rq2(2) by auto
    show ?thesis unfolding eq using a b by blast
  qed
qed

lemma bulk_download_urljoin_raises:
  assumes "set required_cols \<subseteq> set (columns df)" "report_base_url host_ok base_url = Inl e"
  shows "bulk_download send tag host_ok base_url (Some (Inr df)) (Some session) n
           = \<lparr>ui = [], session_state = Some session, net = n, uncaught = Some e\<rparr>"
  using assms by (simp add: bulk_download_def)

lemma bulk_download_net:
  assumes "set required_cols \<subseteq> set (columns df)" "report_base_url host_ok base_url = Inr rbu"
  shows "net (bulk_download send tag host_ok base_url (Some (Inr df)) (Some session) n)
           = b_net (snd (fetch_rows send tag rbu (iterrows df)
                \<lparr>b_session = session, b_net = n, b_zip = [], b_ui = []\<rparr>))"
  using assms by (simp add: bulk_download_def split: prod.splits option.splits)

text \<open>
  C8, as amended. For a row with the descriptor \<open>d\<close>, the request the loop body makes is the
  GET of the report base URL directly followed by the identifier text. The report base URL
  is the absolute path \<open>/patrol/default/viewreportprintable/idreport/\<close> resolved against the
  base URL. For a base URL made of \<open>http://\<close> or \<open>https://\<close>, a host in ASCII without
  square brackets and any rest \<open>p\<close> (a path, query or fragment, possibly empty), it is the
  scheme and host followed by that path, the rest being dropped: the base URL followed by
  the path only when the rest is empty. For such a base URL whose host has one kind of
  square bracket only, \<open>urljoin\<close> raises \<open>ValueError\<close>. With the required columns and a
  session: when \<open>urljoin\<close> raises, the run ends with that exception and without a request;
  otherwise every request of the run is the GET of the report base URL followed by the
  identifier text of a row.
\<close>

theorem pdf_url_scheme:
  "(descriptor_of r = Inr d \<longrightarrow>
      sent (b_net (snd (fetch_row send tag rbu r st)))
        = sent (b_net st) @ [build_request GET (rbu @ py_str (rid d)) [] 20 (b_session st)])
   \<and> ((s = ascii ''http'' \<or> s = ascii ''https'') \<and> set h \<inter> set (ascii ''/?#'') = {}
        \<and> set (h @ p) \<inter> {9, 10, 13} = {} \<and> (p = [] \<or> hd p \<in> set (ascii ''/?#''))
        \<and> 91 \<notin> set h \<and> 93 \<notin> set h \<and> (\<forall>c \<in> set h. c < 128)
      \<longrightarrow> report_base_url host_ok (s @ ascii ''://'' @ h @ p)
            = Inr (s @ ascii ''://'' @ h @ ascii ''/patrol/default/viewreportprintable/idreport/''))
   \<and> ((s = ascii ''http'' \<or> s = ascii ''https'') \<and> set h \<inter> set (ascii ''/?#'') = {}
        \<and> set (h @ p) \<inter> {9, 10, 13} = {} \<and> (p = [] \<or> hd p \<in> set (ascii ''/?#''))
        \<and> (91 \<in> set h) \<noteq> (93 \<in> set h)
      \<longrightarrow> report_base_url host_ok (s @ ascii ''://'' @ h @ p) = Inl ValueError)
   \<and> (set required_cols \<subseteq> set (columns df) \<and> report_base_url host_ok base_url = Inl e
      \<longrightarrow> bulk_download send tag host_ok base_url (Some (Inr df)) (Some session) n
            = \<lparr>ui = [], session_state = Some session, net = n, uncaught = Some e\<rparr>)
   \<and> (set required_cols \<subseteq> set (columns df) \<and> report_base_url host_ok base_url = Inr u
      \<longrightarrow> (\<exists>rqs. sent (net (bulk_download send tag host_ok base_url (Some (Inr df)) (Some session) n))
                   = sent n @ rqs
              \<and> (\<forall>rq \<in> set rqs. req_method rq = GET
                    \<and> (\<exists>r' \<in> set (iterrows df). \<exists>d'. descriptor_of r' = Inr d'
                          \<and> req_url rq = u @ py_str (rid d')))))"
proof -
  have path: "ascii ''/patrol/default/viewreportprintable/idreport/''
      = 47 # ascii ''patrol/default/viewreportprintable/idreport/''"
    by (simp add: ascii_simps)
  have a: "descriptor_of r = Inr d \<longrightarrow>
      sent (b_net (snd (fetch_row send tag rbu r st)))
        = sent (b_net st) @ [build_request GET (rbu @ py_str (rid d)) [] 20 (b_session st)]"
    by (simp add: fetch_row_sent_exact)
  have b: "report_base_url host_ok (s @ ascii ''://'' @ h @ p)
          = Inr (s @ ascii ''://'' @ h @ ascii ''/patrol/default/viewreportprintable/idreport/'')"
    if "s = ascii ''http'' \<or> s = ascii ''https''" "set h \<inter> set (ascii ''/?#'') = {}"
       "set (h @ p) \<inter> {9, 10, 13} = {}" "p = [] \<or> hd p \<in> set (ascii ''/?#'')"
       "91 \<notin> set h" "93 \<notin> set h" "\<forall>c \<in> set h. c < 128"
    unfolding report_base_url_def path using that by (rule urljoin_http_abs_path)
  have c: "report_base_url host_ok (s @ ascii ''://'' @ h @ p) = Inl ValueError"
    if "s = ascii ''http'' \<or> s = ascii ''https''" "set h \<inter> set (ascii ''/?#'') = {}"
       "set (h @ p) \<inter> {9, 10, 13} = {}" "p = [] \<or> hd p \<in> set (ascii ''/?#'')"
       "(91 \<in> set h) \<noteq> (93 \<in> set h)"
    unfolding report_base_url_def path using that by (rule urljoin_one_bracket)
  have d: "bulk_download send tag host_ok base_url (Some (Inr df)) (Some session) n
            = \<lparr>ui = [], session_state = Some session, net = n, uncaught = Some e\<rparr>"
    if "set required_cols \<subseteq> set (columns df)" "report_base_url host_ok base_url = Inl e"
    using that by (rule bulk_download_urljoin_raises)
  have e: "\<exists>rqs. sent (net (bulk_download send tag host_ok base_url (Some (Inr df)) (Some session) n))
                   = sent n @ rqs
              \<and> (\<forall>rq \<in> set rqs. req_method rq = GET
                    \<and> (\<exists>r' \<in> set (iterrows df). \<exists>d'. descriptor_of r' = Inr d'
                          \<and> req_url rq = u @ py_str (rid d')))"
    if "set required_cols \<subseteq> set (columns df)" "report_base_url host_ok base_url = Inr u"
    using fetch_rows_requests [of send tag u "iterrows df" "\<lparr>b_session = session, b_net = n, b_zip = [], b_ui = []\<rparr>"]
    by (simp add: bulk_download_net [OF that])
  have b': "(s = ascii ''http'' \<or> s = ascii ''https'') \<and> set h \<inter> set (ascii ''/?#'') = {}
        \<and> set (h @ p) \<inter> {9, 10, 13} = {} \<and> (p = [] \<or> hd p \<in> set (ascii ''/?#''))
        \<and> 91 \<notin> set h \<and> 93 \<notin> set h \<and> (\<forall>c \<in> set h. c < 128)
      \<longrightarrow> report_base_url host_ok (s @ ascii ''://'' @ h @ p)
            = Inr (s @ ascii ''://'' @ h @ ascii ''/patrol/default/viewreportprintable/idreport/'')"
    using b by blast
  have c': "(s = ascii ''http'' \<or> s = ascii ''https'') \<and> set h \<inter> set (ascii ''/?#'') = {}
        \<and> set (h @ p) \<inter> {9, 10, 13} = {} \<and> (p = [] \<or> hd p \<in> set (ascii ''/?#''))
        \<and> (91 \<in> set h) \<noteq> (93 \<in> set h)
      \<longrightarrow> report_base_url host_ok (s @ ascii ''://'' @ h @ p) = Inl ValueError"
    using c by blast
  have d': "set required_cols \<subseteq> set (columns df) \<and> report_base_url host_ok base_url = Inl e
      \<longrightarrow> bulk_download send tag host_ok base_url (Some (Inr df)) (Some session) n
            = \<lparr>ui = [], session_state = Some session, net = n, uncaught = Some e\<rparr>"
    using d by blast
  have e': "set required_cols \<subseteq> set (columns df) \<and> report_base_url host_ok base_url = Inr u
      \<longrightarrow> (\<exists>rqs. sent (net (bulk_download send tag host_ok base_url (Some (Inr df)) (Some session) n))
                   = sent n @ rqs
              \<and> (\<forall>rq \<in> set rqs. req_method rq = GET
                    \<and> (\<exists>r' \<in> set (iterrows df). \<exists>d'. descriptor_of r' = Inr d'
                          \<and> req_url rq = u @ py_str (rid d'))))"
    using e by blast
  show ?thesis
    by (rule conjI [OF a conjI [OF b' conjI [OF c' conjI [OF d' e']]]])
qed

lemmas demo_defs = demo_send_def demo_reply_def demo_reports_def demo_row_def demo_descriptor_def
  demo_batch_def demo_parser_def ok_page_def status_only_def pdf_reply_def new_session_def
  demo_key_def demo_host_ok_def

lemmas run_defs = fetch_row_def descriptor_of_def row_get_def filename_def safe_filename_def
  re_sub_class_def forbidden_def pdf_url_def session_get_def session_post_def session_request_def
  build_request_def store_cookies_def writestr_def zip_name_error_def member_name_def utf8_len_def
  is_surrogate_def st_download_button_def ascii_simps Let_def

lemmas url_defs = report_base_url_def urljoin_def netloc_check_def url_clean_def split_scheme_def
  split_netloc_def urlunsplit_def uses_relative_def uses_netloc_def is_ascii_alpha_def
  scheme_chars_def lower_def lower_cp_def

lemma descriptor_of_demo_row: "descriptor_of (demo_row i) = Inr (demo_descriptor i)"
  by (simp add: descriptor_of_def row_get_def demo_row_def demo_descriptor_def ascii_simps)

lemma filename_demo: "filename (demo_descriptor i) = ascii ''Daily_ACME_1_2_('' @ ascii i @ ascii '').pdf''"
  by (simp add: demo_descriptor_def filename_def safe_filename_def re_sub_class_def forbidden_def ascii_simps)

text \<open>
  The base URL \<open>https://client.tracktik.com/\<close>; the same host with nothing after it; a host
  with an opening square bracket only; report 101 of the portal; and two runs of the whole
  page, one with the base URL that \<open>urljoin\<close> refuses and one with the portal's.
\<close>

theorem pdf_url_scheme_witness:
  "report_base_url demo_host_ok (ascii ''https://client.tracktik.com/'')
     = Inr (ascii ''https://client.tracktik.com/patrol/default/viewreportprintable/idreport/'')
   \<and> report_base_url demo_host_ok (ascii ''https://client.tracktik.com'')
     = Inr (ascii ''https://client.tracktik.com'' @ ascii ''/patrol/default/viewreportprintable/idreport/'')
   \<and> report_base_url demo_host_ok (ascii ''http://[::1'') = Inl ValueError
   \<and> sent (b_net (snd (fetch_row demo_send id demo_reports (demo_row ''101'') demo_batch)))
     = [build_request GET (ascii ''https://portal.example/patrol/default/viewreportprintable/idreport/101'')
          [] 20 (b_session demo_batch)]
   \<and> bulk_download demo_send id demo_host_ok (ascii ''http://[::1'') (Some (Inr (demo_frame [''1''])))
        (Some new_session) \<lparr>world = 0, sent = []\<rparr>
     = \<lparr>ui = [], session_state = Some new_session, net = \<lparr>world = 0, sent = []\<rparr>, uncaught = Some ValueError\<rparr>
   \<and> list_all (\<lambda>rq. req_method rq = GET \<and> startswith (req_url rq) demo_reports)
        (sent (net (bulk_download demo_send id demo_host_ok (ascii ''https://portal.example/'')
           (Some (Inr (demo_frame [''1'', ''2'']))) (Some new_session) \<lparr>world = 0, sent = []\<rparr>)))"
proof -
  let ?d = "demo_descriptor ''101''"
  let ?n = "\<lparr>world = 0 :: nat, sent = []\<rparr>"
  have cols: "set required_cols \<subseteq> set (columns (demo_frame ids))" for ids
    by (simp add: required_cols_def demo_frame_def demo_row_def)
  have sh: "ascii ''https'' @ ascii ''://'' @ ascii ''client.tracktik.com'' @ ascii ''/'' = ascii ''https://client.tracktik.com/''"
    "ascii ''https'' @ ascii ''://'' @ ascii ''client.tracktik.com'' @ [] = ascii ''https://client.tracktik.com''"
    "ascii ''http'' @ ascii ''://'' @ ascii ''[::1'' @ [] = ascii ''http://[::1''"
    "ascii ''https'' @ ascii ''://'' @ ascii ''portal.example'' @ ascii ''/'' = ascii ''https://portal.example/''"
    "ascii ''https'' @ ascii ''://'' @ ascii ''client.tracktik.com'' @ ascii ''/patrol/default/viewreportprintable/idreport/''
       = ascii ''https://client.tracktik.com/patrol/default/viewreportprintable/idreport/''"
    "ascii ''https'' @ ascii ''://'' @ ascii ''portal.example'' @ ascii ''/patrol/default/viewreportprintable/idreport/''
       = demo_reports"
    by (simp_all add: ascii_simps demo_reports_def)
  note inst = pdf_url_scheme [where r = "demo_row ''101''" and d = "?d" and send = demo_send and tag = id
      and rbu = demo_reports and st = demo_batch and host_ok = demo_host_ok and session = new_session
      and n = "?n"]
  have a: "report_base_url demo_host_ok (ascii ''https://client.tracktik.com/'')
     = Inr (ascii ''https://client.tracktik.com/patrol/default/viewreportprintable/idreport/'')"
    using inst [where s = "ascii ''https''" and h = "ascii ''client.tracktik.com''" and p = "ascii ''/''"]
    unfolding sh by (simp add: ascii_simps)
  have b: "report_base_url demo_host_ok (ascii ''https://client.tracktik.com'')
     = Inr (ascii ''https://client.tracktik.com'' @ ascii ''/patrol/default/viewreportprintable/idreport/'')"
    using inst [where s = "ascii ''https''" and h = "ascii ''client.tracktik.com''" and p = "[]"]
    unfolding sh by (simp add: ascii_simps)
  have c: "report_base_url demo_host_ok (ascii ''http://[::1'') = Inl ValueError"
    using inst [where s = "ascii ''http''" and h = "ascii ''[::1''" and p = "[]"]
    unfolding sh by (simp add: ascii_simps)
  have e: "bulk_download demo_send id demo_host_ok (ascii ''http://[::1'') (Some (Inr (demo_frame [''1''])))
        (Some new_session) ?n
     = \<lparr>ui = [], session_state = Some new_session, net = ?n, uncaught = Some ValueError\<rparr>"
    using inst [where df = "demo_frame [''1'']" and base_url = "ascii ''http://[::1''" and e = ValueError]
      cols c
    by simp
  have d: "sent (b_net (snd (fetch_row demo_send id demo_reports (demo_row ''101'') demo_batch)))
     = [build_request GET (ascii ''https://portal.example/patrol/default/viewreportprintable/idreport/101'')
          [] 20 (b_session demo_batch)]"
    using inst descriptor_of_demo_row [of "''101''"]
    by (simp add: demo_batch_def demo_descriptor_def demo_reports_def ascii_simps)
  have p: "report_base_url demo_host_ok (ascii ''https://portal.example/'') = Inr demo_reports"
    using inst [where s = "ascii ''https''" and h = "ascii ''portal.example''" and p = "ascii ''/''"]
    unfolding sh by (simp add: ascii_simps)
  have f: "list_all (\<lambda>rq. req_method rq = GET \<and> startswith (req_url rq) demo_reports)
        (sent (net (bulk_download demo_send id demo_host_ok (ascii ''https://portal.example/'')
           (Some (Inr (demo_frame [''1'', ''2'']))) (Some new_session) ?n)))"
  proof -
    let ?run = "bulk_download demo_send id demo_host_ok (ascii ''https://portal.example/'')
           (Some (Inr (demo_frame [''1'', ''2'']))) (Some new_session) ?n"
    have every: "\<forall>rq \<in> set (sent (net ?run)). req_method rq = GET
        \<and> (\<exists>r' \<in> set (iterrows (demo_frame [''1'', ''2''])). \<exists>d'. descriptor_of r' = Inr d'
              \<and> req_url rq = demo_reports @ py_str (rid d'))"
      using inst [where df = "demo_frame [''1'', ''2'']" and base_url = "ascii ''https://portal.example/''"
          and u = demo_reports and s = "[]" and h = "[]" and p = "[]"]
        cols p
      by simp
    show ?thesis
      unfolding list_all_iff
    proof
      fix rq
      assume "rq \<in> set (sent (net ?run))"
      with every obtain d' :: descriptor where "req_method rq = GET" "req_url rq = demo_reports @ py_str (rid d')"
        by blast
      then show "req_method rq = GET \<and> startswith (req_url rq) demo_reports"
        by (simp add: startswith_append)
    qed
  qed
  from a b c d e f show ?thesis by simp
qed

text \<open>
  C8 as stated fails at the base URL \<open>https://client.tracktik.com/\<close>: the report base URL is
  not that text followed by the path, which would carry two slashes after the host.
\<close>

theorem report_base_url_counterexample:
  "report_base_url demo_host_ok (ascii ''https://client.tracktik.com/'')
     = Inr (ascii ''https://client.tracktik.com/patrol/default/viewreportprintable/idreport/'')
   \<and> report_base_url demo_host_ok (ascii ''https://client.tracktik.com/'')
     \<noteq> Inr (ascii ''https://client.tracktik.com/'' @ ascii ''/patrol/default/viewreportprintable/idreport/'')"
  by (simp add: url_defs ascii_simps)

subsection \<open>The names of the saved reports\<close>

lemma descriptor_of_cells:
  assumes "map_of r (ascii ''id'') = Some i" "map_of r (ascii ''reportname'') = Some nm"
    "map_of r (ascii ''account.name'') = Some a" "map_of r (ascii ''date'') = Some dt"
  shows "descriptor_of r = Inr \<lparr>rid = i, reportname = nm, account_name = a, date = dt\<rparr>"
  using assms by (simp add: descriptor_of_def row_get_def)

lemma filename_eq_iff:
  assumes "safe_filename (reportname d) = safe_filename (reportname d')"
    "safe_filename (account_name d) = safe_filename (account_name d')"
    "safe_filename (date d) = safe_filename (date d')"
  shows "filename d = filename d' \<longleftrightarrow> py_str (rid d) = py_str (rid d')"
  using assms by (simp add: filename_def)

text \<open>
  C7, as amended. A row carries the cells \<open>i\<close>, \<open>nm\<close>, \<open>a\<close> and \<open>dt\<close> under the labels \<open>id\<close>,
  \<open>reportname\<close>, \<open>account.name\<close> and \<open>date\<close>. When its report comes as a PDF that the
  archive and the page accept, the name in the success message, on the download button and
  (up to its first null character) of the archive member is
  \<open>{sanitize(reportname)}_{sanitize(account.name)}_{sanitize(date)}_({id}).pdf\<close>, whatever
  the other columns, the session, the network and the page. Two descriptors whose three
  labels sanitize to the same texts have the same filename exactly when their identifier
  texts are the same; so with the same three labels and two different identifiers read as
  text, the filenames differ.
\<close>

theorem filename_scheme:
  "(map_of r (ascii ''id'') = Some i \<and> map_of r (ascii ''reportname'') = Some nm
      \<and> map_of r (ascii ''account.name'') = Some a \<and> map_of r (ascii ''date'') = Some dt
      \<and> result (fst (send (build_request GET (rbu @ py_str i) [] 20 (b_session st)) (world (b_net st)))) = Inr resp
      \<and> status_code resp = 200 \<and> take 4 (content resp) = ''%PDF''
      \<and> zip_name_error (safe_filename nm @ ascii ''_'' @ safe_filename a @ ascii ''_'' @ safe_filename dt
                          @ ascii ''_('' @ py_str i @ ascii '').pdf'') = None
      \<and> (safe_filename nm @ ascii ''_'' @ safe_filename a @ ascii ''_'' @ safe_filename dt
            @ ascii ''_('' @ py_str i @ ascii '').pdf'', tag (content resp)) \<notin> set (button_ids tag (b_ui st))
    \<longrightarrow> b_ui (snd (fetch_row send tag rbu r st))
          = b_ui st @ [StSuccess (Saved (safe_filename nm @ ascii ''_'' @ safe_filename a @ ascii ''_''
                          @ safe_filename dt @ ascii ''_('' @ py_str i @ ascii '').pdf'')),
                       DownloadButton (safe_filename nm @ ascii ''_'' @ safe_filename a @ ascii ''_''
                          @ safe_filename dt @ ascii ''_('' @ py_str i @ ascii '').pdf'') (content resp)]
        \<and> b_zip (snd (fetch_row send tag rbu r st))
          = b_zip st @ [(member_name (safe_filename nm @ ascii ''_'' @ safe_filename a @ ascii ''_''
                          @ safe_filename dt @ ascii ''_('' @ py_str i @ ascii '').pdf''), content resp)])
   \<and> (safe_filename (reportname d) = safe_filename (reportname d')
        \<and> safe_filename (account_name d) = safe_filename (account_name d')
        \<and> safe_filename (date d) = safe_filename (date d')
      \<longrightarrow> (filename d = filename d' \<longleftrightarrow> py_str (rid d) = py_str (rid d')))
   \<and> (reportname d = reportname d' \<and> account_name d = account_name d' \<and> date d = date d'
        \<and> rid d = Str i1 \<and> rid d' = Str i2 \<and> i1 \<noteq> i2 \<longrightarrow> filename d \<noteq> filename d')"
proof -
  let ?name = "safe_filename nm @ ascii ''_'' @ safe_filename a @ ascii ''_'' @ safe_filename dt
                 @ ascii ''_('' @ py_str i @ ascii '').pdf''"
  let ?d = "\<lparr>rid = i, reportname = nm, account_name = a, date = dt\<rparr>"
  have name: "filename ?d = ?name" by (simp add: filename_def)
  have url: "pdf_url rbu ?d = rbu @ py_str i" by (simp add: pdf_url_def)
  have row: "b_ui (snd (fetch_row send tag rbu r st))
          = b_ui st @ [StSuccess (Saved ?name), DownloadButton ?name (content resp)]
        \<and> b_zip (snd (fetch_row send tag rbu r st)) = b_zip st @ [(member_name ?name, content resp)]"
    if cells: "map_of r (ascii ''id'') = Some i" "map_of r (ascii ''reportname'') = Some nm"
      "map_of r (ascii ''account.name'') = Some a" "map_of r (ascii ''date'') = Some dt"
      and resp: "result (fst (send (build_request GET (rbu @ py_str i) [] 20 (b_session st)) (world (b_net st)))) = Inr resp"
      and valid: "status_code resp = 200" "take 4 (content resp) = ''%PDF''"
      and accepted: "zip_name_error ?name = None"
      and fresh: "(?name, tag (content resp)) \<notin> set (button_ids tag (b_ui st))"
  proof -
    have d: "descriptor_of r = Inr ?d" using cells by (rule descriptor_of_cells)
    have "fetch_row send tag rbu r st =
     (None,
      st\<lparr>b_session := keep_cookies (fst (send (build_request GET (pdf_url rbu ?d) [] 20 (b_session st)) (world (b_net st)))) (b_session st),
         b_net := \<lparr>world = snd (send (build_request GET (pdf_url rbu ?d) [] 20 (b_session st)) (world (b_net st))),
                   sent = sent (b_net st) @ [build_request GET (pdf_url rbu ?d) [] 20 (b_session st)]\<rparr>,
         b_zip := b_zip st @ [(member_name (filename ?d), content resp)],
         b_ui := b_ui st @ [StSuccess (Saved (filename ?d)), DownloadButton (filename ?d) (content resp)]\<rparr>)"
      using d resp valid accepted fresh unfolding name [symmetric] url [symmetric]
      by (rule fetch_row_saved)
    then show ?thesis by (simp add: name)
  qed
  have a: "map_of r (ascii ''id'') = Some i \<and> map_of r (ascii ''reportname'') = Some nm
      \<and> map_of r (ascii ''account.name'') = Some a \<and> map_of r (ascii ''date'') = Some dt
      \<and> result (fst (send (build_request GET (rbu @ py_str i) [] 20 (b_session st)) (world (b_net st)))) = Inr resp
      \<and> status_code resp = 200 \<and> take 4 (content resp) = ''%PDF''
      \<and> zip_name_error ?name = None
      \<and> (?name, tag (content resp)) \<notin> set (button_ids tag (b_ui st))
    \<longrightarrow> b_ui (snd (fetch_row send tag rbu r st))
          = b_ui st @ [StSuccess (Saved ?name), DownloadButton ?name (content resp)]
        \<and> b_zip (snd (fetch_row send tag rbu r st)) = b_zip st @ [(member_name ?name, content resp)]"
    using row by blast
  have b: "safe_filename (reportname d) = safe_filename (reportname d')
        \<and> safe_filename (account_name d) = safe_filename (account_name d')
        \<and> safe_filename (date d) = safe_filename (date d')
      \<longrightarrow> (filename d = filename d' \<longleftrightarrow> py_str (rid d) = py_str (rid d'))"
    using filename_eq_iff [of d d'] by blast
  have c: "reportname d = reportname d' \<and> account_name d = account_name d' \<and> date d = date d'
        \<and> rid d = Str i1 \<and> rid d' = Str i2 \<and> i1 \<noteq> i2 \<longrightarrow> filename d \<noteq> filename d'"
    using filename_eq_iff [of d d'] by auto
  show ?thesis
    by (rule conjI [OF a conjI [OF b c]])
qed

text \<open>
  Reports 101 and 102 of one account on one day, with a slash in the date: the page and the
  archive after report 101, and the two filenames.
\<close>

theorem filename_scheme_witness:
  "b_ui (snd (fetch_row demo_send id demo_reports (demo_row ''101'') demo_batch))
     = [StSuccess (Saved (ascii ''Daily_ACME_1_2_(101).pdf'')),
        DownloadButton (ascii ''Daily_ACME_1_2_(101).pdf'') ''%PDFfakebytes'']
   \<and> b_zip (snd (fetch_row demo_send id demo_reports (demo_row ''101'') demo_batch))
     = [(ascii ''Daily_ACME_1_2_(101).pdf'', ''%PDFfakebytes'')]
   \<and> filename (demo_descriptor ''101'') = ascii ''Daily_ACME_1_2_(101).pdf''
   \<and> filename (demo_descriptor ''102'') = ascii ''Daily_ACME_1_2_(102).pdf''
   \<and> filename (demo_descriptor ''101'') \<noteq> filename (demo_descriptor ''102'')"
proof -
  let ?resp = "\<lparr>status_code = 200, resp_text = [], content = ''%PDFfakebytes''\<rparr>"
  have cells: "map_of (demo_row ''101'') (ascii ''id'') = Some (Str (ascii ''101''))"
    "map_of (demo_row ''101'') (ascii ''reportname'') = Some (Str (ascii ''Daily''))"
    "map_of (demo_row ''101'') (ascii ''account.name'') = Some (Str (ascii ''ACME''))"
    "map_of (demo_row ''101'') (ascii ''date'') = Some (Str (ascii ''1/2''))"
    by (simp_all add: demo_row_def ascii_simps)
  have name: "safe_filename (Str (ascii ''Daily'')) @ ascii ''_'' @ safe_filename (Str (ascii ''ACME'')) @ ascii ''_''
       @ safe_filename (Str (ascii ''1/2'')) @ ascii ''_('' @ py_str (Str (ascii ''101'')) @ ascii '').pdf''
     = ascii ''Daily_ACME_1_2_(101).pdf''"
    by (simp add: safe_filename_def re_sub_class_def forbidden_def ascii_simps)
  have resp: "result (fst (demo_send (build_request GET (demo_reports @ py_str (Str (ascii ''101''))) [] 20
                (b_session demo_batch)) (world (b_net demo_batch)))) = Inr ?resp"
    by (simp add: demo_defs build_request_def ascii_simps)
  have accepted: "zip_name_error (ascii ''Daily_ACME_1_2_(101).pdf'') = None"
    by (simp add: zip_name_error_def member_name_def utf8_len_def is_surrogate_def ascii_simps)
  have member: "member_name (ascii ''Daily_ACME_1_2_(101).pdf'') = ascii ''Daily_ACME_1_2_(101).pdf''"
    by (simp add: member_name_def ascii_simps)
  have empty: "b_ui demo_batch = []" "b_zip demo_batch = []"
    by (simp_all add: demo_batch_def)
  have f: "filename (demo_descriptor ''101'') = ascii ''Daily_ACME_1_2_(101).pdf''"
    "filename (demo_descriptor ''102'') = ascii ''Daily_ACME_1_2_(102).pdf''"
    by (simp_all add: filename_demo ascii_simps)
  have labels: "reportname (demo_descriptor ''101'') = reportname (demo_descriptor ''102'')"
    "account_name (demo_descriptor ''101'') = account_name (demo_descriptor ''102'')"
    "date (demo_descriptor ''101'') = date (demo_descriptor ''102'')"
    "rid (demo_descriptor ''101'') = Str (ascii ''101'')" "rid (demo_descriptor ''102'') = Str (ascii ''102'')"
    "ascii ''101'' \<noteq> ascii ''102''"
    by (simp_all add: demo_descriptor_def ascii_simps)
  show ?thesis
    using filename_scheme [where r = "demo_row ''101''" and i = "Str (ascii ''101'')"
        and nm = "Str (ascii ''Daily'')" and a = "Str (ascii ''ACME'')" and dt = "Str (ascii ''1/2'')"
        and send = demo_send and rbu = demo_reports and st = demo_batch and resp = ?resp and tag = id
        and d = "demo_descriptor ''101''" and d' = "demo_descriptor ''102''"
        and ?i1.0 = "ascii ''101''" and ?i2.0 = "ascii ''102''"]
      cells resp accepted labels
    unfolding name member empty
    by (simp add: f member)
qed

text \<open>
  C7 as stated fails for two descriptors that differ in the identifier and in the date: the
  identifier \<open>1\<close> with the date \<open>c_(x\<close> and the identifier \<open>x_(1\<close> with the date \<open>c\<close> both
  give the filename \<open>a_b_c_(x_(1).pdf\<close>.
\<close>

theorem filename_collision_counterexample:
  "rid \<lparr>rid = Str (ascii ''1''), reportname = Str (ascii ''a''), account_name = Str (ascii ''b''),
        date = Str (ascii ''c_(x'')\<rparr>
     \<noteq> rid \<lparr>rid = Str (ascii ''x_(1''), reportname = Str (ascii ''a''), account_name = Str (ascii ''b''),
            date = Str (ascii ''c'')\<rparr>
   \<and> filename \<lparr>rid = Str (ascii ''1''), reportname = Str (ascii ''a''), account_name = Str (ascii ''b''),
        date = Str (ascii ''c_(x'')\<rparr> = ascii ''a_b_c_(x_(1).pdf''
   \<and> filename \<lparr>rid = Str (ascii ''x_(1''), reportname = Str (ascii ''a''), account_name = Str (ascii ''b''),
        date = Str (ascii ''c'')\<rparr> = ascii ''a_b_c_(x_(1).pdf''"
  by (simp add: filename_def safe_filename_def re_sub_class_def forbidden_def ascii_simps)

section \<open>Properties of the login\<close>

lemma contains_iff: "contains n h \<longleftrightarrow> (\<exists>a b. h = a @ n @ b)"
proof (induction h)
  case Nil
  then show ?case by auto
next
  case (Cons x h)
  have sw: "startswith (x # h) n \<longleftrightarrow> (\<exists>b. x # h = n @ b)"
    by (metis append_eq_conv_conj append_take_drop_id startswith_take)
  show ?case
  proof
    assume "contains n (x # h)"
    then consider "startswith (x # h) n" | "contains n h" by auto
    then show "\<exists>a b. x # h = a @ n @ b"
    proof cases
      case 1
      with sw obtain b where "x # h = n @ b" by blast
      then have "x # h = [] @ n @ b" by simp
      then show ?thesis by blast
    next
      case 2
      with Cons obtain a b where "h = a @ n @ b" by blast
      then have "x # h = (x # a) @ n @ b" by simp
      then show ?thesis by blast
    qed
  next
    assume "\<exists>a b. x # h = a @ n @ b"
    then obtain a b where ab: "x # h = a @ n @ b" by blast
    show "contains n (x # h)"
    proof (cases a)
      case Nil
      with ab have "\<exists>b. x # h = n @ b" by auto
      with sw have "startswith (x # h) n" by blast
      then show ?thesis by simp
    next
      case (Cons y a')
      with ab have "h = a' @ n @ b" by simp
      with Cons.IH show ?thesis by auto
    qed
  qed
qed

lemma contains_lower:
  "contains p (lower s) \<longleftrightarrow> (\<exists>w. contains w s \<and> lower w = p)"
proof
  assume "contains p (lower s)"
  then obtain a b where "map lower_cp s = a @ p @ b" by (auto simp: contains_iff lower_def)
  then obtain a' w b' where "s = a' @ w @ b'" "map lower_cp w = p"
    by (metis map_eq_append_conv)
  then show "\<exists>w. contains w s \<and> lower w = p" by (auto simp: contains_iff lower_def)
next
  assume "\<exists>w. contains w s \<and> lower w = p"
  then obtain w a b where "s = a @ w @ b" "lower w = p" by (auto simp: contains_iff)
  then have "lower s = lower a @ p @ lower b" by (simp add: lower_def)
  then show "contains p (lower s)" by (auto simp: contains_iff)
qed


text \<open>
  C3. Once the login page has loaded with its token field, the login URL has been resolved
  and the POST has returned a response, \<open>perform_login\<close> classifies that response in
  three ways. Status 200 with a body that has, in whatever letter case, the word \<open>logout\<close>
  in it: the session with the message of a successful login. Status 200 or 302 otherwise:
  the session again, with the different message that asks to check the session cookies. Any
  other status: no session, and the message of a failed login with that status.
\<close>

theorem login_classification:
  assumes page: "session_get send base_url 15 new_session n0 = (Inr r, s1, n1)"
    and ok: "status_code r = 200"
    and tok: "soup_find (html_parser (resp_text r)) (ascii ''input'') [(ascii ''name'', ascii ''_csrf_token'')] = Some token_input"
    and url: "urljoin host_ok base_url (ascii ''/form/secursignin/signin'') = Inr login_url"
    and post: "session_post send login_url
                 [(ascii ''email'', Some username), (ascii ''password'', Some password),
                  (ascii ''_csrf_token'', tag_get token_input (ascii ''value'')),
                  (ascii ''locale'', Some (ascii ''en_us'')), (ascii ''submit'', Some (ascii ''Login''))]
                 15 s1 n1 = (Inr resp, s2, n2)"
  shows "(status_code resp = 200 \<and> (\<exists>w. contains w (resp_text resp) \<and> lower w = ascii ''logout'')
            \<longrightarrow> fst (perform_login host_ok html_parser send username password base_url n0)
                  = Inr (Some s2, LoginSuccessful))
       \<and> ((status_code resp = 200 \<or> status_code resp = 302)
            \<and> \<not> (status_code resp = 200 \<and> (\<exists>w. contains w (resp_text resp) \<and> lower w = ascii ''logout''))
            \<longrightarrow> fst (perform_login host_ok html_parser send username password base_url n0)
                  = Inr (Some s2, LoginSentCheckCookies))
       \<and> (status_code resp \<noteq> 200 \<and> status_code resp \<noteq> 302
            \<longrightarrow> fst (perform_login host_ok html_parser send username password base_url n0)
                  = Inr (None, LoginFailedHTTP (status_code resp)))"
  using page ok tok url post
  by (simp add: perform_login_def urljoin_empty Let_def contains_lower [symmetric])

text \<open>
  On the portal: \<open>alice\<close> gets a page offering \<open>Logout\<close>, \<open>bob\<close> a page without it, \<open>carol\<close> a
  302 and \<open>dave\<close> a 403.
\<close>

theorem login_classification_witness:
  "fst (perform_login demo_host_ok demo_parser demo_send (ascii ''alice'') (ascii ''pw'') (ascii ''https://portal.example'')
          \<lparr>world = 0, sent = []\<rparr>)
     = Inr (Some (new_session\<lparr>cookies := [(demo_key ''portal.example'' ''sid'', ascii ''s1''),
                                           (demo_key ''portal.example'' ''auth'', ascii ''yes'')]\<rparr>), LoginSuccessful)
   \<and> fst (perform_login demo_host_ok demo_parser demo_send (ascii ''bob'') (ascii ''pw'') (ascii ''https://portal.example'')
          \<lparr>world = 0, sent = []\<rparr>)
     = Inr (Some (new_session\<lparr>cookies := [(demo_key ''portal.example'' ''sid'', ascii ''s1'')]\<rparr>), LoginSentCheckCookies)
   \<and> fst (perform_login demo_host_ok demo_parser demo_send (ascii ''carol'') (ascii ''pw'') (ascii ''https://portal.example'')
          \<lparr>world = 0, sent = []\<rparr>)
     = Inr (Some (new_session\<lparr>cookies := [(demo_key ''portal.example'' ''sid'', ascii ''s1'')]\<rparr>), LoginSentCheckCookies)
   \<and> fst (perform_login demo_host_ok demo_parser demo_send (ascii ''dave'') (ascii ''pw'') (ascii ''https://portal.example'')
          \<lparr>world = 0, sent = []\<rparr>)
     = Inr (None, LoginFailedHTTP 403)"
proof -
  let ?n0 = "\<lparr>world = 0 :: nat, sent = []\<rparr>"
  let ?b = "ascii ''https://portal.example''"
  let ?l = "ascii ''https://portal.example/form/secursignin/signin''"
  let ?r = "\<lparr>status_code = 200, resp_text = ascii ''<input name=_csrf_token value=tok>'', content = []\<rparr>"
  let ?e = "\<lparr>tag_name = ascii ''input'',
             attrs = [(ascii ''name'', ascii ''_csrf_token''), (ascii ''value'', ascii ''tok'')]\<rparr>"
  let ?s1 = "new_session\<lparr>cookies := [(demo_key ''portal.example'' ''sid'', ascii ''s1'')]\<rparr>"
  let ?n1 = "\<lparr>world = 1 :: nat, sent = [build_request GET ?b [] 15 new_session]\<rparr>"
  let ?post = "\<lambda>user. session_post demo_send ?l
                 [(ascii ''email'', Some user), (ascii ''password'', Some (ascii ''pw'')),
                  (ascii ''_csrf_token'', tag_get ?e (ascii ''value'')),
                  (ascii ''locale'', Some (ascii ''en_us'')), (ascii ''submit'', Some (ascii ''Login''))]
                 15 ?s1 ?n1"
  have page: "session_get demo_send ?b 15 new_session ?n0 = (Inr ?r, ?s1, ?n1)"
    by (simp add: session_get_result keep_cookies_def demo_defs build_request_def store_cookies_def ascii_simps)
  have ok: "status_code ?r = 200" by simp
  have tok: "soup_find (demo_parser (resp_text ?r)) (ascii ''input'') [(ascii ''name'', ascii ''_csrf_token'')] = Some ?e"
    by (simp add: soup_find_def demo_parser_def ascii_simps)
  have url: "urljoin demo_host_ok ?b (ascii ''/form/secursignin/signin'') = Inr ?l"
    by (simp add: url_defs ascii_simps)
  have alice: "?post (ascii ''alice'')
      = (Inr \<lparr>status_code = 200, resp_text = ascii ''<a href=/out>Logout</a>'', content = []\<rparr>,
         new_session\<lparr>cookies := [(demo_key ''portal.example'' ''sid'', ascii ''s1''),
                                   (demo_key ''portal.example'' ''auth'', ascii ''yes'')]\<rparr>,
         snd (snd (?post (ascii ''alice''))))"
    by (simp add: session_post_result keep_cookies_def demo_defs build_request_def store_cookies_def ascii_simps)
  have bob: "?post (ascii ''bob'')
      = (Inr \<lparr>status_code = 200, resp_text = ascii ''<p>Welcome</p>'', content = []\<rparr>, ?s1,
         snd (snd (?post (ascii ''bob''))))"
    by (simp add: session_post_result keep_cookies_def demo_defs build_request_def store_cookies_def ascii_simps)
  have carol: "?post (ascii ''carol'')
      = (Inr \<lparr>status_code = 302, resp_text = [], content = []\<rparr>, ?s1, snd (snd (?post (ascii ''carol''))))"
    by (simp add: session_post_result keep_cookies_def demo_defs build_request_def store_cookies_def ascii_simps)
  have dave: "?post (ascii ''dave'')
      = (Inr \<lparr>status_code = 403, resp_text = [], content = []\<rparr>, ?s1, snd (snd (?post (ascii ''dave''))))"
    by (simp add: session_post_result keep_cookies_def demo_defs build_request_def store_cookies_def ascii_simps)
  have yes: "contains (ascii ''logout'') (lower (ascii ''<a href=/out>Logout</a>''))"
    by (simp add: lower_def lower_cp_def ascii_simps)
  have no: "\<not> contains (ascii ''logout'') (lower (ascii ''<p>Welcome</p>''))"
    by (simp add: lower_def lower_cp_def ascii_simps)
  have no': "\<not> contains (ascii ''logout'') (lower [])"
    by (simp add: lower_def ascii_simps)
  show ?thesis
    using login_classification [where html_parser = demo_parser, OF page ok tok url alice]
      login_classification [where html_parser = demo_parser, OF page ok tok url bob]
      login_classification [where html_parser = demo_parser, OF page ok tok url carol]
      login_classification [where html_parser = demo_parser, OF page ok tok url dave]
      yes no no'
    by (simp add: contains_lower [symmetric])
qed




text \<open>When the login URL cannot be resolved, the exception of \<open>urljoin\<close> leaves
  \<open>perform_login\<close> after the GET of the login page.\<close>

lemma perform_login_urljoin_raises:
  assumes page: "session_get send base_url 15 new_session n0 = (Inr r, s1, n1)"
    and ok: "status_code r = 200"
    and tok: "soup_find (html_parser (resp_text r)) (ascii ''input'') [(ascii ''name'', ascii ''_csrf_token'')] = Some token_input"
    and url: "urljoin host_ok base_url (ascii ''/form/secursignin/signin'') = Inl e"
  shows "perform_login host_ok html_parser send username password base_url n0 = (Inl e, n1)"
  using page ok tok url
  by (simp add: perform_login_def urljoin_empty Let_def)

section \<open>Properties of the bulk download\<close>

text \<open>
  C5. When the uploaded frame lacks one of the columns \<open>id\<close>, \<open>reportname\<close>, \<open>account.name\<close>,
  \<open>date\<close>, whatever its rows: no request is made, no archive is offered, nothing is raised,
  the stored session is untouched, and with a session present the page shows exactly the
  error naming the required columns.
\<close>

theorem missing_columns_rejected:
  assumes "\<not> set required_cols \<subseteq> set (columns df)"
  shows "net (bulk_download send tag host_ok base_url (Some (Inr df)) state n) = n
       \<and> (\<forall>z. DownloadZip z \<notin> set (ui (bulk_download send tag host_ok base_url (Some (Inr df)) state n)))
       \<and> uncaught (bulk_download send tag host_ok base_url (Some (Inr df)) state n) = None
       \<and> session_state (bulk_download send tag host_ok base_url (Some (Inr df)) state n) = state
       \<and> (state \<noteq> None \<longrightarrow>
            ui (bulk_download send tag host_ok base_url (Some (Inr df)) state n) = [StError MustContainColumns])"
  using assms by (cases state) (simp_all add: bulk_download_def)

text \<open>A frame without the column \<open>account.name\<close>.\<close>

theorem missing_columns_rejected_witness:
  "\<not> set required_cols \<subseteq> set (columns \<lparr>columns = [ascii ''id'', ascii ''reportname'', ascii ''date''],
                                                rows = [[Str (ascii ''1''), Str (ascii ''Daily''), Str (ascii ''1/2'')]]\<rparr>)
   \<and> bulk_download demo_send id demo_host_ok (ascii ''https://portal.example'')
        (Some (Inr \<lparr>columns = [ascii ''id'', ascii ''reportname'', ascii ''date''],
                     rows = [[Str (ascii ''1''), Str (ascii ''Daily''), Str (ascii ''1/2'')]]\<rparr>))
        (Some new_session) \<lparr>world = 0, sent = []\<rparr>
      = \<lparr>ui = [StError MustContainColumns], session_state = Some new_session,
         net = \<lparr>world = 0, sent = []\<rparr>, uncaught = None\<rparr>"
proof -
  have h: "\<not> set required_cols \<subseteq> set (columns \<lparr>columns = [ascii ''id'', ascii ''reportname'', ascii ''date''],
                                                rows = [[Str (ascii ''1''), Str (ascii ''Daily''), Str (ascii ''1/2'')]]\<rparr>)"
    by (simp add: required_cols_def ascii_simps)
  show ?thesis
    using h missing_columns_rejected [OF h, of demo_send id demo_host_ok "ascii ''https://portal.example''"
        "Some new_session" "\<lparr>world = 0, sent = []\<rparr>"]
    by simp
qed

text \<open>
  C1 at two rows whose reports the portal serves as PDFs with status 200. The first is row
  1 listed a second time: its bytes go to the archive and its success message to the page,
  then Streamlit refuses the second button for the same file and the exception leaves the
  loop, so the row has no download button (and the run no archive). The second is a row
  whose report name starts with a null character: \<open>writestr\<close> refuses the member name, and
  the row leaves nothing in the archive and nothing on the page.
\<close>

theorem valid_response_not_recorded:
  "map (\<lambda>rq. result (demo_reply rq))
       (sent (b_net (snd (fetch_rows demo_send tag demo_reports [demo_row ''1'', demo_row ''1''] demo_batch))))
     = [Inr \<lparr>status_code = 200, resp_text = [], content = ''%PDFfakebytes''\<rparr>,
        Inr \<lparr>status_code = 200, resp_text = [], content = ''%PDFfakebytes''\<rparr>]
   \<and> fst (fetch_rows demo_send tag demo_reports [demo_row ''1'', demo_row ''1''] demo_batch)
     = Some DuplicateWidgetID
   \<and> b_ui (snd (fetch_rows demo_send tag demo_reports [demo_row ''1'', demo_row ''1''] demo_batch))
     = [StSuccess (Saved (ascii ''Daily_ACME_1_2_(1).pdf'')),
        DownloadButton (ascii ''Daily_ACME_1_2_(1).pdf'') ''%PDFfakebytes'',
        StSuccess (Saved (ascii ''Daily_ACME_1_2_(1).pdf''))]
   \<and> map (\<lambda>rq. result (demo_reply rq))
       (sent (b_net (snd (fetch_row demo_send tag demo_reports
          [(ascii ''id'', Str (ascii ''1'')), (ascii ''reportname'', Str [0]),
           (ascii ''account.name'', Str (ascii ''ACME'')), (ascii ''date'', Str (ascii ''1/2''))] demo_batch))))
     = [Inr \<lparr>status_code = 200, resp_text = [], content = ''%PDFfakebytes''\<rparr>]
   \<and> fetch_row demo_send tag demo_reports
          [(ascii ''id'', Str (ascii ''1'')), (ascii ''reportname'', Str [0]),
           (ascii ''account.name'', Str (ascii ''ACME'')), (ascii ''date'', Str (ascii ''1/2''))] demo_batch
     = (Some IndexError,
        demo_batch\<lparr>b_net := \<lparr>world = 3, sent = [build_request GET (demo_reports @ ascii ''1'') [] 20
                                                      (b_session demo_batch)]\<rparr>\<rparr>)"
  by (simp add: run_defs demo_defs)

lemma fetch_row_headers:
  "headers (b_session (snd (fetch_row send tag rbu r st))) = headers (b_session st)"
  by (simp add: fetch_row_def session_get_result keep_cookies_def Let_def writestr_def st_download_button_def
      split: sum.splits option.splits)

lemma fetch_row_sent:
  "\<exists>rqs. sent (b_net (snd (fetch_row send tag rbu r st))) = sent (b_net st) @ rqs
     \<and> (\<forall>rq \<in> set rqs. req_method rq = GET \<and> req_headers rq = headers (b_session st))"
proof (cases "descriptor_of r")
  case (Inl e)
  then show ?thesis by (simp add: fetch_row_sent_key_error)
next
  case (Inr d)
  then show ?thesis by (simp add: fetch_row_sent_exact build_request_def)
qed

lemma fetch_row_session:
  assumes "descriptor_of r = Inr d"
  shows "b_session (snd (fetch_row send tag rbu r st))
           = keep_cookies (fst (send (build_request GET (pdf_url rbu d) [] 20 (b_session st)) (world (b_net st))))
               (b_session st)"
  using assms
  by (simp add: fetch_row_def session_get_result Let_def writestr_def st_download_button_def
      split: sum.splits option.splits)

lemma fetch_row_session_kept:
  assumes "\<forall>rq w. req_method rq = GET \<and> startswith (req_url rq) rbu \<longrightarrow> cookies_set (fst (send rq w)) = []"
  shows "b_session (snd (fetch_row send tag rbu r st)) = b_session st"
proof (cases "descriptor_of r")
  case (Inl e)
  then show ?thesis by (simp add: fetch_row_def)
next
  case (Inr d)
  let ?rq = "build_request GET (pdf_url rbu d) [] 20 (b_session st)"
  have "req_method ?rq = GET \<and> startswith (req_url ?rq) rbu"
    by (simp add: build_request_def pdf_url_def startswith_append)
  with assms have "cookies_set (fst (send ?rq (world (b_net st)))) = []" by blast
  then show ?thesis
    using Inr by (simp add: fetch_row_session keep_cookies_def store_cookies_Nil)
qed

text \<open>
  C9, as amended. The loop never changes the session's headers and makes only GET requests
  with it, each carrying those headers. It does not touch the cookies itself, but
  \<open>session.get\<close> stores the cookies the portal sets: the session after the loop is the
  session before it whenever the portal sets no cookie in reply to a report request.
\<close>

theorem fetch_rows_session:
  "headers (b_session (snd (fetch_rows send tag rbu rws st))) = headers (b_session st)
   \<and> (\<exists>rqs. sent (b_net (snd (fetch_rows send tag rbu rws st))) = sent (b_net st) @ rqs
         \<and> (\<forall>rq \<in> set rqs. req_method rq = GET \<and> req_headers rq = headers (b_session st)))
   \<and> ((\<forall>rq w. req_method rq = GET \<and> startswith (req_url rq) rbu \<longrightarrow> cookies_set (fst (send rq w)) = [])
        \<longrightarrow> b_session (snd (fetch_rows send tag rbu rws st)) = b_session st)"
proof (induction rws arbitrary: st)
  case Nil
  then show ?case by simp
next
  case (Cons r rs)
  let ?st1 = "snd (fetch_row send tag rbu r st)"
  obtain rq1 where rq1: "sent (b_net ?st1) = sent (b_net st) @ rq1"
    "\<forall>rq \<in> set rq1. req_method rq = GET \<and> req_headers rq = headers (b_session st)"
    using fetch_row_sent [of send tag rbu r st] by blast
  have h1: "headers (b_session ?st1) = headers (b_session st)" by (rule fetch_row_headers)
  show ?case
  proof (cases "fst (fetch_row send tag rbu r st) = None")
    case False
    have eq: "snd (fetch_rows send tag rbu (r # rs) st) = ?st1"
      by (subst snd_fetch_rows_Cons) (rule if_not_P [OF False])
    show ?thesis
      unfolding eq using h1 rq1 fetch_row_session_kept [of rbu send tag r st] by blast
  next
    case True
    have eq: "snd (fetch_rows send tag rbu (r # rs) st) = snd (fetch_rows send tag rbu rs ?st1)"
      by (subst snd_fetch_rows_Cons) (rule if_P [OF True])
    from Cons.IH [of ?st1] obtain rq2 where
      ih1: "headers (b_session (snd (fetch_rows send tag rbu rs ?st1))) = headers (b_session ?st1)" and
      ih2: "sent (b_net (snd (fetch_rows send tag rbu rs ?st1))) = sent (b_net ?st1) @ rq2"
           "\<forall>rq \<in> set rq2. req_method rq = GET \<and> req_headers rq = headers (b_session ?st1)" and
      ih3: "(\<forall>rq w. req_method rq = GET \<and> startswith (req_url rq) rbu \<longrightarrow> cookies_set (fst (send rq w)) = [])
            \<longrightarrow> b_session (snd (fetch_rows send tag rbu rs ?st1)) = b_session ?st1"
      by blast
    have a: "headers (b_session (snd (fetch_rows send tag rbu rs ?st1))) = headers (b_session st)"
      using ih1 h1 by simp
    have b: "sent (b_net (snd (fetch_rows send tag rbu rs ?st1))) = sent (b_net st) @ (rq1 @ rq2)"
      using ih2(1) rq1(1) by simp
    have c: "\<forall>rq \<in> set (rq1 @ rq2). req_method rq = GET \<and> req_headers rq = headers (b_session st)"
      using rq1(2) ih2(2) h1 by auto
    have d: "(\<forall>rq w. req_method rq = GET \<and> startswith (req_url rq) rbu \<longrightarrow> cookies_set (fst (send rq w)) = [])
            \<longrightarrow> b_session (snd (fetch_rows send tag rbu rs ?st1)) = b_session st"
      using ih3 fetch_row_session_kept [of rbu send tag r st] by simp
    show ?thesis
      unfolding eq using a b c d by blast
  qed
qed

text \<open>The report pages of \<open>portal.example\<close> set no cookie.\<close>

theorem fetch_rows_session_witness:
  "b_session (snd (fetch_rows demo_send id demo_reports [demo_row ''1'', demo_row ''2'', demo_row ''3''] demo_batch))
       = b_session demo_batch
   \<and> headers (b_session (snd (fetch_rows demo_send id cookie_reports [demo_row ''1''] demo_batch)))
       = headers new_session"
proof -
  have quiet: "\<forall>rq w. req_method rq = GET \<and> startswith (req_url rq) demo_reports
                 \<longrightarrow> cookies_set (fst (demo_send rq w)) = []"
    by (simp add: demo_send_def demo_reply_def ok_page_def status_only_def pdf_reply_def
        demo_reports_def ascii_simps)
  have h: "headers (b_session demo_batch) = headers new_session"
    by (simp add: demo_batch_def)
  show ?thesis
    using quiet h
      fetch_rows_session [of demo_send id demo_reports "[demo_row ''1'', demo_row ''2'', demo_row ''3'']" demo_batch]
      fetch_rows_session [of demo_send id cookie_reports "[demo_row ''1'']" demo_batch]
    by simp
qed

text \<open>
  C9 as stated fails on a portal that sets a cookie with a report: after one fetch the
  session has a cookie it did not have after the login.
\<close>

theorem fetch_sets_cookie_counterexample:
  "cookies (b_session demo_batch)
     = [(demo_key ''portal.example'' ''sid'', ascii ''s1''), (demo_key ''portal.example'' ''auth'', ascii ''yes'')]
   \<and> cookies (b_session (snd (fetch_rows demo_send id cookie_reports [demo_row ''1''] demo_batch)))
     = [(demo_key ''portal.example'' ''sid'', ascii ''s1''), (demo_key ''portal.example'' ''auth'', ascii ''yes''),
        (demo_key ''cookie.example'' ''seen'', ascii ''1'')]"
  by (simp add: run_defs demo_defs cookie_reports_def)

subsection \<open>The loop against the specification's batch\<close>

lemma button_ids_spec_log: "button_ids tag (spec_log res) = spec_buttons tag res"
  by (induction res rule: spec_log.induct) simp_all

lemma length_exchanges: "length (exchanges send rbu ds s w) = length ds"
  by (induction ds arbitrary: s w) (simp_all add: Let_def split: prod.splits)

lemma length_spec_results: "length (spec_results send rbu ds s w) = length ds"
  by (simp add: spec_results_def length_exchanges)

lemma spec_results_Cons:
  "spec_results send rbu (d # ds) s w =
     spec_fetch_result d (fst (send (build_request GET (pdf_url rbu d) [] 20 s) w))
     # spec_results send rbu ds (keep_cookies (fst (send (build_request GET (pdf_url rbu d) [] 20 s) w)) s)
         (snd (send (build_request GET (pdf_url rbu d) [] 20 s) w))"
  by (simp add: spec_results_def Let_def split: prod.splits)

lemma exchanges_Cons:
  "map fst (exchanges send rbu (d # ds) s w) =
     build_request GET (pdf_url rbu d) [] 20 s
     # map fst (exchanges send rbu ds (keep_cookies (fst (send (build_request GET (pdf_url rbu d) [] 20 s) w)) s)
         (snd (send (build_request GET (pdf_url rbu d) [] 20 s) w)))"
  by (simp add: Let_def split: prod.splits)

lemma fetch_row_spec:
  assumes d: "descriptor_of r = Inr d"
    and accepted: "zip_name_error (filename d) = None"
    and fresh: "set (spec_buttons tag (spec_fetch_result d (fst (send (build_request GET (pdf_url rbu d) [] 20 (b_session st)) (world (b_net st))))))
                  \<inter> set (button_ids tag (b_ui st)) = {}"
  shows "fetch_row send tag rbu r st =
     (None,
      \<lparr>b_session = keep_cookies (fst (send (build_request GET (pdf_url rbu d) [] 20 (b_session st)) (world (b_net st)))) (b_session st),
       b_net = \<lparr>world = snd (send (build_request GET (pdf_url rbu d) [] 20 (b_session st)) (world (b_net st))),
                sent = sent (b_net st) @ [build_request GET (pdf_url rbu d) [] 20 (b_session st)]\<rparr>,
       b_zip = b_zip st @ spec_members (spec_fetch_result d (fst (send (build_request GET (pdf_url rbu d) [] 20 (b_session st)) (world (b_net st))))),
       b_ui = b_ui st @ spec_log (spec_fetch_result d (fst (send (build_request GET (pdf_url rbu d) [] 20 (b_session st)) (world (b_net st)))))\<rparr>)"
proof -
  let ?x = "fst (send (build_request GET (pdf_url rbu d) [] 20 (b_session st)) (world (b_net st)))"
  show ?thesis
  proof (cases "result ?x")
    case (Inl e)
    have res: "spec_fetch_result d ?x = Failure (py_str (rid d)) (Inl e)"
      using Inl by (simp add: spec_fetch_result_def)
    show ?thesis
      by (simp add: fetch_row_exception [where send = send and st = st and rbu = rbu and tag = tag, OF d Inl] res)
  next
    case (Inr resp)
    show ?thesis
    proof (cases "status_code resp = 200 \<and> take 4 (content resp) = ''%PDF''")
      case True
      then have res: "spec_fetch_result d ?x = Success (filename d) (content resp)"
        using Inr by (simp add: spec_fetch_result_def)
      with fresh have f: "(filename d, tag (content resp)) \<notin> set (button_ids tag (b_ui st))" by simp
      from True have v: "status_code resp = 200" "take 4 (content resp) = ''%PDF''" by simp_all
      show ?thesis
        by (simp add: fetch_row_saved [where send = send and st = st and rbu = rbu and tag = tag, OF d Inr v accepted f] res)
    next
      case False
      then have res: "spec_fetch_result d ?x = Failure (py_str (rid d)) (Inr (status_code resp))"
        using Inr by (auto simp: spec_fetch_result_def)
      show ?thesis
        by (simp add: fetch_row_invalid [where send = send and st = st and rbu = rbu and tag = tag, OF d Inr False] res)
    qed
  qed
qed

text \<open>
  When the archive accepts every filename, the download buttons of the successful rows are
  pairwise different and none is on the page yet, the loop runs to its end whatever the
  fetch failures: it makes one request per descriptor, in order; the archive gains exactly
  the members of the successful rows, in order; and the page gains the log of every row.
\<close>

lemma fetch_rows_complete:
  assumes "map descriptor_of rws = map Inr ds"
    and "list_all (\<lambda>d. zip_name_error (filename d) = None) ds"
    and "distinct (button_ids tag (b_ui st)
           @ concat (map (spec_buttons tag) (spec_results send rbu ds (b_session st) (world (b_net st)))))"
  shows "fst (fetch_rows send tag rbu rws st) = None
       \<and> sent (b_net (snd (fetch_rows send tag rbu rws st)))
           = sent (b_net st) @ map fst (exchanges send rbu ds (b_session st) (world (b_net st)))
       \<and> b_zip (snd (fetch_rows send tag rbu rws st))
           = b_zip st @ concat (map spec_members (spec_results send rbu ds (b_session st) (world (b_net st))))
       \<and> b_ui (snd (fetch_rows send tag rbu rws st))
           = b_ui st @ concat (map spec_log (spec_results send rbu ds (b_session st) (world (b_net st))))"
  using assms
proof (induction rws arbitrary: ds st)
  case Nil
  then show ?case by (simp add: spec_results_def)
next
  case (Cons r rs)
  from Cons.prems(1) obtain d ds' where ds: "ds = d # ds'" and d: "descriptor_of r = Inr d"
    and rest: "map descriptor_of rs = map Inr ds'"
    by (cases ds) auto
  from Cons.prems(2) have accepted: "zip_name_error (filename d) = None"
    and accepted': "list_all (\<lambda>d. zip_name_error (filename d) = None) ds'"
    by (simp_all add: ds)
  let ?rq = "build_request GET (pdf_url rbu d) [] 20 (b_session st)"
  let ?x = "fst (send ?rq (world (b_net st)))"
  let ?w = "snd (send ?rq (world (b_net st)))"
  let ?res = "spec_fetch_result d ?x"
  let ?st1 = "\<lparr>b_session = keep_cookies ?x (b_session st),
               b_net = \<lparr>world = ?w, sent = sent (b_net st) @ [?rq]\<rparr>,
               b_zip = b_zip st @ spec_members ?res,
               b_ui = b_ui st @ spec_log ?res\<rparr>"
  have dist: "distinct (button_ids tag (b_ui st) @ spec_buttons tag ?res
                @ concat (map (spec_buttons tag) (spec_results send rbu ds' (keep_cookies ?x (b_session st)) ?w)))"
    using Cons.prems(3) by (simp add: ds spec_results_Cons)
  then have fresh: "set (spec_buttons tag ?res) \<inter> set (button_ids tag (b_ui st)) = {}"
    by auto
  have row: "fetch_row send tag rbu r st = (None, ?st1)"
    using d accepted fresh by (rule fetch_row_spec)
  have dist1: "distinct (button_ids tag (b_ui ?st1)
                 @ concat (map (spec_buttons tag) (spec_results send rbu ds' (b_session ?st1) (world (b_net ?st1)))))"
    using dist by (simp add: button_ids_append button_ids_spec_log)
  note ih = Cons.IH [OF rest accepted' dist1]
  have step: "fetch_rows send tag rbu (r # rs) st = fetch_rows send tag rbu rs ?st1"
    by (simp add: row)
  let ?end = "snd (fetch_rows send tag rbu rs ?st1)"
  let ?rest = "spec_results send rbu ds' (keep_cookies ?x (b_session st)) ?w"
  from ih have a: "fst (fetch_rows send tag rbu rs ?st1) = None"
    by simp
  from ih have b: "sent (b_net ?end)
      = sent (b_net st) @ ?rq # map fst (exchanges send rbu ds' (keep_cookies ?x (b_session st)) ?w)"
    by simp
  from ih have c: "b_zip ?end = b_zip st @ spec_members ?res @ concat (map spec_members ?rest)"
    by simp
  from ih have e: "b_ui ?end = b_ui st @ spec_log ?res @ concat (map spec_log ?rest)"
    by simp
  show ?case
    unfolding step ds spec_results_Cons exchanges_Cons using a b c e by simp
qed

text \<open>
  The specification's example: of three descriptors the second fails with status 404; the
  archive has the two successes and the page the log of all three rows.
\<close>

lemma three_rows_second_fails:
  "fst (fetch_rows demo_send tag demo_reports [demo_row ''1'', demo_row ''2'', demo_row ''3''] demo_batch) = None
   \<and> b_zip (snd (fetch_rows demo_send tag demo_reports [demo_row ''1'', demo_row ''2'', demo_row ''3''] demo_batch))
     = [(ascii ''Daily_ACME_1_2_(1).pdf'', ''%PDFfakebytes''), (ascii ''Daily_ACME_1_2_(3).pdf'', ''%PDFfakebytes'')]
   \<and> b_ui (snd (fetch_rows demo_send tag demo_reports [demo_row ''1'', demo_row ''2'', demo_row ''3''] demo_batch))
     = [StSuccess (Saved (ascii ''Daily_ACME_1_2_(1).pdf'')),
        DownloadButton (ascii ''Daily_ACME_1_2_(1).pdf'') ''%PDFfakebytes'',
        StError (FailedStatus (ascii ''2'') 404),
        StSuccess (Saved (ascii ''Daily_ACME_1_2_(3).pdf'')),
        DownloadButton (ascii ''Daily_ACME_1_2_(3).pdf'') ''%PDFfakebytes'']"
  by (simp add: run_defs demo_defs)

text \<open>
  C2 at a batch that lists report 1 twice and then report 3, all three served as PDFs: the
  second button for report 1 is refused by Streamlit, the exception leaves the loop, and
  report 3 is never requested. This holds whatever part of the data enters the widget
  identity.
\<close>

theorem repeated_row_aborts:
  "fst (fetch_rows demo_send tag demo_reports [demo_row ''1'', demo_row ''1'', demo_row ''3''] demo_batch)
     = Some DuplicateWidgetID
   \<and> map req_url (sent (b_net (snd (fetch_rows demo_send tag demo_reports
          [demo_row ''1'', demo_row ''1'', demo_row ''3''] demo_batch))))
     = [demo_reports @ ascii ''1'', demo_reports @ ascii ''1'']"
  by (simp add: run_defs demo_defs)

text \<open>
  C10 at a frame with the same row twice: the second row raises \<open>DuplicateWidgetID\<close> after
  its success message, and the page ends there, without the archive.
\<close>

theorem repeated_row_no_archive:
  "uncaught (bulk_download demo_send tag demo_host_ok (ascii ''https://portal.example'')
       (Some (Inr (demo_frame [''1'', ''1'']))) (Some (b_session demo_batch)) (b_net demo_batch))
     = Some DuplicateWidgetID
   \<and> ui (bulk_download demo_send tag demo_host_ok (ascii ''https://portal.example'')
       (Some (Inr (demo_frame [''1'', ''1'']))) (Some (b_session demo_batch)) (b_net demo_batch))
     = [StSuccess (Saved (ascii ''Daily_ACME_1_2_(1).pdf'')),
        DownloadButton (ascii ''Daily_ACME_1_2_(1).pdf'') ''%PDFfakebytes'',
        StSuccess (Saved (ascii ''Daily_ACME_1_2_(1).pdf''))]"
  by (simp add: bulk_download_def demo_frame_def required_cols_def iterrows_def url_defs run_defs demo_defs)

end
